theory Spec2Isabelle
  imports Complex_Main "HOL-Library.AList"
begin

section \<open>Python values\<close>

text \<open>
  Dynamically typed Python values (the contents of dictionaries, JSON bodies, results)
  are modelled by one datatype. \<open>JNull\<close> is Python's \<open>None\<close>; numbers are reals
  (the code only compares them and takes minima and maxima, which is exact on floats);
  a dictionary inside a value is an association list. Strings are lists of \<open>char\<close>,
  that is, Python strings whose code points are below 256, so that \<open>length\<close> is
  Python's \<open>len\<close>.
\<close>

datatype json =
    JNull
  | JBool bool
  | JNum real
  | JStr string
  | JArr "json list"
  | JObj "(string \<times> json) list"

text \<open>Python truthiness, as used by \<open>if value:\<close>.\<close>

fun truthy :: "json \<Rightarrow> bool" where
  "truthy JNull = False"
| "truthy (JBool b) = b"
| "truthy (JNum r) = (r \<noteq> 0)"
| "truthy (JStr s) = (s \<noteq> [])"
| "truthy (JArr xs) = (xs \<noteq> [])"
| "truthy (JObj kvs) = (kvs \<noteq> [])"

text \<open>
  The exceptions of \<open>adapters/model_adapter.py\<close> (message, operation, model name and the
  payload of the subclass) and the built-in exceptions the modelled code can raise.
\<close>

datatype py_exc =
    ModelAdapterError string string string
  | ModelTimeoutError string string string real
  | ModelAuthenticationError string string string
  | ModelRateLimitError string string string json
  | ModelContentFilterError string string string json
  | ValueError string
  | TypeError string
  | KeyError string
  | AttributeError string

section \<open>Settings (\<open>config/settings.py\<close>)\<close>

text \<open>
  \<open>DEFAULT_MODEL\<close> and \<open>MODEL_TIMEOUT\<close> are read from the process environment,
  so they are parameters here.
\<close>

record settings =
  DEFAULT_MODEL :: string
  MODEL_TIMEOUT :: real

text \<open>
  One entry of \<open>MODEL_CONFIGS\<close>. The two keys that are not generation parameters,
  \<open>context_window\<close> and \<open>capabilities\<close>, are fields of their own; \<open>gen_parameters\<close>
  is the dictionary that remains once \<open>prepare_parameters\<close> has deleted those two.
\<close>

record model_config =
  gen_parameters :: "(string \<times> json) list"
  context_window :: nat
  capabilities :: "string list"

definition MODEL_CONFIGS :: "settings \<Rightarrow> (string \<times> model_config) list" where
  "MODEL_CONFIGS st =
     [(''openai/gpt-4'',
       \<lparr>gen_parameters =
          [(''temperature'', JNum 0.7), (''max_tokens'', JNum 1000), (''top_p'', JNum 1.0),
           (''frequency_penalty'', JNum 0.0), (''presence_penalty'', JNum 0.0),
           (''stop'', JNull), (''timeout'', JNum (MODEL_TIMEOUT st))],
        context_window = 8192,
        capabilities = [''matching'', ''personality'', ''engagement'', ''recommendation'']\<rparr>),
      (''openai/gpt-3.5-turbo'',
       \<lparr>gen_parameters =
          [(''temperature'', JNum 0.7), (''max_tokens'', JNum 1000), (''top_p'', JNum 1.0),
           (''frequency_penalty'', JNum 0.0), (''presence_penalty'', JNum 0.0),
           (''stop'', JNull), (''timeout'', JNum (MODEL_TIMEOUT st))],
        context_window = 4096,
        capabilities = [''matching'', ''personality'', ''engagement'', ''recommendation'']\<rparr>),
      (''anthropic/claude-2'',
       \<lparr>gen_parameters =
          [(''temperature'', JNum 0.7), (''max_tokens'', JNum 1000), (''top_p'', JNum 1.0),
           (''stop'', JNull), (''timeout'', JNum (MODEL_TIMEOUT st))],
        context_window = 100000,
        capabilities = [''matching'', ''personality'', ''engagement'', ''recommendation'']\<rparr>),
      (''anthropic/claude-instant-1'',
       \<lparr>gen_parameters =
          [(''temperature'', JNum 0.7), (''max_tokens'', JNum 1000), (''top_p'', JNum 1.0),
           (''stop'', JNull), (''timeout'', JNum (MODEL_TIMEOUT st))],
        context_window = 100000,
        capabilities = [''engagement'', ''recommendation'']\<rparr>)]"

text \<open>\<open>model = model_name or DEFAULT_MODEL\<close>: \<open>None\<close> and the empty string are falsy.\<close>

definition model_or_default :: "settings \<Rightarrow> string option \<Rightarrow> string" where
  "model_or_default st model_name =
     (case model_name of
        None \<Rightarrow> DEFAULT_MODEL st
      | Some m \<Rightarrow> if m = [] then DEFAULT_MODEL st else m)"

text \<open>\<open>MODEL_CONFIGS.get(model, {}).get('context_window', 4096)\<close>.\<close>

definition context_window_of :: "settings \<Rightarrow> string \<Rightarrow> nat" where
  "context_window_of st model =
     (case map_of (MODEL_CONFIGS st) model of
        None \<Rightarrow> 4096
      | Some mc \<Rightarrow> context_window mc)"

section \<open>Preparation of prompts, parameters and messages (\<open>adapters/model_adapter.py\<close>)\<close>

text \<open>
  \<open>str.isspace\<close> on code points below 256, and \<open>str.strip()\<close>.
\<close>

definition py_isspace :: "char \<Rightarrow> bool" where
  "py_isspace c = ((of_char c :: nat) \<in> {9, 10, 11, 12, 13, 28, 29, 30, 31, 32, 133, 160})"

definition strip :: "string \<Rightarrow> string" where
  "strip s = rev (dropWhile py_isspace (rev (dropWhile py_isspace s)))"

definition truncation_note :: string where
  "truncation_note =
     CHR 0x0A # ''[Note: prompt has been truncated to fit model context window]''"

text \<open>
  \<open>prepare_prompt(prompt, model_name)\<close>. The product \<open>context_window * 0.9\<close> is a
  float in the source and a real here; for the integer windows in question the rounded
  float product compares with an integer length, and truncates under \<open>int\<close>, exactly as
  the real product does.
\<close>

definition prepare_prompt :: "settings \<Rightarrow> string \<Rightarrow> string option \<Rightarrow> string" where
  "prepare_prompt st prompt model_name =
     (let model = model_or_default st model_name;
          cw = context_window_of st model;
          cleaned_prompt = strip prompt
      in if real (length cleaned_prompt) > real cw * 0.9
         then let truncated_length = nat \<lfloor>real cw * 0.9\<rfloor>
              in take truncated_length cleaned_prompt @ truncation_note
         else cleaned_prompt)"

text \<open>
  The number a Python value stands for in a comparison with a number (\<open>bool\<close> is a
  subclass of \<open>int\<close>); comparing anything else with a number raises \<open>TypeError\<close>.
\<close>

fun py_num :: "json \<Rightarrow> real option" where
  "py_num (JNum r) = Some r"
| "py_num (JBool b) = Some (if b then 1 else 0)"
| "py_num _ = None"

text \<open>
  The two validation statements at the end of \<open>prepare_parameters\<close>, on the merged
  dictionary.
\<close>

definition clamp_temperature :: "(string \<rightharpoonup> json) \<Rightarrow> py_exc + (string \<rightharpoonup> json)" where
  "clamp_temperature p =
     (case p ''temperature'' of
        None \<Rightarrow> Inr p
      | Some v \<Rightarrow>
          (case py_num v of
             None \<Rightarrow> Inl (TypeError ''<= not supported'')
           | Some r \<Rightarrow>
               if \<not> (0 \<le> r \<and> r \<le> 2)
               then Inr (p(''temperature'' \<mapsto> JNum (max 0 (min r 2))))
               else Inr p))"

definition clamp_top_p :: "(string \<rightharpoonup> json) \<Rightarrow> py_exc + (string \<rightharpoonup> json)" where
  "clamp_top_p p =
     (case p ''top_p'' of
        None \<Rightarrow> Inr p
      | Some v \<Rightarrow>
          (case py_num v of
             None \<Rightarrow> Inl (TypeError ''< not supported'')
           | Some r \<Rightarrow>
               if \<not> (0 < r \<and> r \<le> 1)
               then Inr (p(''top_p'' \<mapsto> JNum (max 0.01 (min r 1))))
               else Inr p))"

definition clamp_parameters :: "(string \<rightharpoonup> json) \<Rightarrow> py_exc + (string \<rightharpoonup> json)" where
  "clamp_parameters p =
     (case clamp_temperature p of
        Inl e \<Rightarrow> Inl e
      | Inr p1 \<Rightarrow> clamp_top_p p1)"

text \<open>
  The defaults \<open>prepare_parameters\<close> starts from: the model's configuration without
  \<open>context_window\<close> and \<open>capabilities\<close>, or the empty dictionary for an unknown model.
\<close>

definition default_parameters :: "settings \<Rightarrow> string \<Rightarrow> (string \<rightharpoonup> json)" where
  "default_parameters st model =
     (case map_of (MODEL_CONFIGS st) model of
        None \<Rightarrow> Map.empty
      | Some mc \<Rightarrow> map_of (gen_parameters mc))"

text \<open>
  \<open>prepare_parameters(parameters, model_name)\<close>. \<open>if parameters:\<close> skips \<open>None\<close> and
  the empty dictionary; updating with the empty dictionary changes nothing, so only
  \<open>None\<close> is told apart.
\<close>

definition prepare_parameters ::
  "settings \<Rightarrow> (string \<rightharpoonup> json) option \<Rightarrow> string option \<Rightarrow> py_exc + (string \<rightharpoonup> json)" where
  "prepare_parameters st parameters model_name =
     (let model = model_or_default st model_name;
          prepared_params = default_parameters st model;
          merged = (case parameters of None \<Rightarrow> prepared_params
                    | Some p \<Rightarrow> prepared_params ++ p)
      in clamp_parameters merged)"

text \<open>Python's \<open>len\<close>: defined on strings, lists and dictionaries.\<close>

fun py_len :: "json \<Rightarrow> py_exc + nat" where
  "py_len (JStr s) = Inr (length s)"
| "py_len (JArr xs) = Inr (length xs)"
| "py_len (JObj kvs) = Inr (length kvs)"
| "py_len _ = Inl (TypeError ''object has no len()'')"

text \<open>\<open>msg.get(key)\<close> on a message that is a dictionary.\<close>

definition msg_get :: "json \<Rightarrow> string \<Rightarrow> json option" where
  "msg_get msg k = (case msg of JObj kvs \<Rightarrow> map_of kvs k | _ \<Rightarrow> None)"

text \<open>\<open>isinstance(msg, dict) and 'role' in msg and 'content' in msg\<close>.\<close>

definition is_message :: "json \<Rightarrow> bool" where
  "is_message msg =
     (case msg of
        JObj kvs \<Rightarrow> map_of kvs ''role'' \<noteq> None \<and> map_of kvs ''content'' \<noteq> None
      | _ \<Rightarrow> False)"

text \<open>\<open>len(msg.get('content', ''))\<close>.\<close>

definition content_len :: "json \<Rightarrow> py_exc + nat" where
  "content_len msg =
     py_len (case msg_get msg ''content'' of None \<Rightarrow> JStr [] | Some c \<Rightarrow> c)"

text \<open>\<open>sum(len(msg.get('content', '')) for msg in msgs)\<close>: the first failing \<open>len\<close> raises.\<close>

fun sum_content_len :: "json list \<Rightarrow> py_exc + nat" where
  "sum_content_len [] = Inr 0"
| "sum_content_len (m # ms) =
     (case content_len m of
        Inl e \<Rightarrow> Inl e
      | Inr n \<Rightarrow> (case sum_content_len ms of Inl e \<Rightarrow> Inl e | Inr k \<Rightarrow> Inr (n + k)))"

definition is_system :: "json \<Rightarrow> bool" where
  "is_system msg = (msg_get msg ''role'' = Some (JStr ''system''))"

text \<open>
  The loop \<open>while other_messages and remaining_length <= 0\<close>: the oldest message is
  popped and the remaining length recomputed. \<open>cap\<close> is \<open>int(context_window * 0.9)\<close>.
\<close>

fun drop_oldest :: "int \<Rightarrow> int \<Rightarrow> json list \<Rightarrow> int \<Rightarrow> py_exc + (json list \<times> int)" where
  "drop_oldest cap system_length [] remaining_length = Inr ([], remaining_length)"
| "drop_oldest cap system_length (m # ms) remaining_length =
     (if remaining_length \<le> 0
      then (case sum_content_len ms of
              Inl e \<Rightarrow> Inl e
            | Inr n \<Rightarrow> drop_oldest cap system_length ms (cap - system_length - int n))
      else Inr (m # ms, remaining_length))"

text \<open>The slice \<open>s[:i]\<close>; a negative \<open>i\<close> counts from the end.\<close>

definition py_slice_to :: "'a list \<Rightarrow> int \<Rightarrow> 'a list" where
  "py_slice_to s i = (if 0 \<le> i then take (nat i) s else take (length s - nat (- i)) s)"

definition message_truncation_note :: string where
  "message_truncation_note =
     CHR 0x0A # ''[Note: message has been truncated to fit model context window]''"

text \<open>
  The statement \<open>if other_messages and remaining_length < sum(...)\<close>: the content of
  the oldest remaining message is cut and the note appended. Only a string content can
  be sliced and concatenated with the note; a list or a dictionary raises there.
  (The source writes the new content into the message object, which the caller's list
  shares; the value modelled is the list returned.)
\<close>

definition truncate_oldest :: "json list \<Rightarrow> int \<Rightarrow> py_exc + json list" where
  "truncate_oldest other_messages remaining_length =
     (case other_messages of
        [] \<Rightarrow> Inr []
      | oldest_msg # rest \<Rightarrow>
          (case sum_content_len other_messages of
             Inl e \<Rightarrow> Inl e
           | Inr others_length \<Rightarrow>
               if remaining_length < int others_length
               then (case sum_content_len rest of
                       Inl e \<Rightarrow> Inl e
                     | Inr rest_total \<Rightarrow>
                         (case oldest_msg of
                            JObj kvs \<Rightarrow>
                              (case map_of kvs ''content'' of
                                 Some (JStr content) \<Rightarrow>
                                   let truncated_content =
                                         py_slice_to content (remaining_length - int rest_total)
                                   in Inr (JObj (AList.update ''content''
                                                   (JStr (truncated_content @ message_truncation_note))
                                                   kvs) # rest)
                               | _ \<Rightarrow> Inl (TypeError ''content cannot be truncated''))
                          | _ \<Rightarrow> Inl (TypeError ''message is not a dict'')))
               else Inr other_messages))"

definition helpful_system_message :: json where
  "helpful_system_message =
     JObj [(''role'', JStr ''system''),
           (''content'', JStr (''You are a helpful AI assistant for the Tribe platform, ''
              @ ''which helps people form meaningful local connections.''))]"

definition startswith :: "string \<Rightarrow> string \<Rightarrow> bool" where
  "startswith s p = (take (length p) s = p)"

text \<open>The part of \<open>prepare_messages\<close> after validation, on the list of messages.\<close>

definition optimize_messages :: "settings \<Rightarrow> string \<Rightarrow> json list \<Rightarrow> py_exc + json list" where
  "optimize_messages st model msgs =
     (let cw = context_window_of st model in
      case sum_content_len msgs of
        Inl e \<Rightarrow> Inl e
      | Inr total_length \<Rightarrow>
          (case (if real total_length > real cw * 0.9
                 then let system_messages = filter is_system msgs;
                          other_messages = filter (\<lambda>m. \<not> is_system m) msgs;
                          cap = \<lfloor>real cw * 0.9\<rfloor>
                      in (case sum_content_len system_messages of
                            Inl e \<Rightarrow> Inl e
                          | Inr system_length \<Rightarrow>
                              (case drop_oldest cap (int system_length) other_messages
                                      (cap - int system_length) of
                                 Inl e \<Rightarrow> Inl e
                               | Inr (others, remaining_length) \<Rightarrow>
                                   (case truncate_oldest others remaining_length of
                                      Inl e \<Rightarrow> Inl e
                                    | Inr others' \<Rightarrow> Inr (system_messages @ others'))))
                 else Inr msgs) of
             Inl e \<Rightarrow> Inl e
           | Inr optimized_messages \<Rightarrow>
               let has_system = list_ex is_system optimized_messages
               in if \<not> has_system \<and> startswith model ''anthropic/''
                  then Inr (helpful_system_message # optimized_messages)
                  else Inr optimized_messages))"

text \<open>
  \<open>prepare_messages(messages, model_name)\<close>. The argument is any Python value, so that
  the two validation checks can fail.
\<close>

definition prepare_messages :: "settings \<Rightarrow> json \<Rightarrow> string option \<Rightarrow> py_exc + json list" where
  "prepare_messages st messages model_name =
     (let model = model_or_default st model_name in
      case messages of
        JArr msgs \<Rightarrow>
          if \<not> list_all is_message msgs
          then Inl (ValueError ''Each message must be a dict with 'role' and 'content' keys'')
          else optimize_messages st model msgs
      | _ \<Rightarrow> Inl (ValueError ''Messages must be a list''))"

section \<open>Error classification (\<open>adapters/openrouter_adapter.py\<close>)\<close>

text \<open>
  \<open>handle_error\<close> inspects the exception it is given by \<open>isinstance\<close>, \<open>hasattr\<close>
  and \<open>getattr\<close>. An attribute is either absent or present with a value.
\<close>

datatype 'a attr = Absent | Present 'a

text \<open>
  What \<open>handle_error\<close> can observe of \<open>error.response\<close>: the status code (an integer
  or \<open>None\<close>), the headers with lower-case names, and the outcome of calling \<open>json()\<close>
  (\<open>None\<close> when the call raises). A response that is \<open>None\<close> has no attribute at all.
\<close>

record response =
  status_code :: "int option attr"
  headers :: "(string \<times> string) list attr"
  json_body :: "json option attr"

text \<open>
  What \<open>handle_error\<close> can observe of the exception: the three \<open>isinstance\<close> tests
  (timeout: \<open>requests.Timeout\<close>, \<open>asyncio.TimeoutError\<close> or the aiohttp name test;
  connection: \<open>requests.ConnectionError\<close>, \<open>aiohttp.ClientConnectionError\<close>; HTTP:
  \<open>requests.HTTPError\<close>, \<open>aiohttp.ClientResponseError\<close>), the attributes
  \<open>status_code\<close> and \<open>response\<close>, and \<open>str(error)\<close>.
\<close>

record raw_error =
  is_timeout :: bool
  is_connection_error :: bool
  is_http_error :: bool
  err_status_code :: "int option attr"
  err_response :: "response attr"
  err_str :: string

text \<open>The configuration \<open>OpenRouterAdapter.__init__\<close> extracts for the request loop.\<close>

record adapter =
  timeout :: real
  max_retries :: int
  retry_delay :: real

text \<open>\<open>str\<close> of an integer, and of a status code that may be \<open>None\<close>.\<close>

fun digits10 :: "nat \<Rightarrow> string" where
  "digits10 n =
     (if n < 10 then [char_of (48 + n)]
      else digits10 (n div 10) @ [char_of (48 + n mod 10)])"

declare digits10.simps [simp del]

definition str_int :: "int \<Rightarrow> string" where
  "str_int i = (if i < 0 then CHR ''-'' # digits10 (nat (- i)) else digits10 (nat i))"

definition str_status :: "int option \<Rightarrow> string" where
  "str_status sc = (case sc of None \<Rightarrow> ''None'' | Some n \<Rightarrow> str_int n)"

text \<open>
  \<open>int(text)\<close> on a string: surrounding whitespace is stripped, a sign may come first,
  then decimal digits, single underscores allowed between digits. \<open>None\<close> stands for
  \<open>ValueError\<close>. (The interpreter's limit on the number of digits is not modelled.)
\<close>

definition is_digit :: "char \<Rightarrow> bool" where
  "is_digit c = (48 \<le> (of_char c :: nat) \<and> (of_char c :: nat) \<le> 57)"

definition digit_val :: "char \<Rightarrow> nat" where
  "digit_val c = of_char c - 48"

fun parse_dec :: "nat \<Rightarrow> string \<Rightarrow> nat option" where
  "parse_dec acc [] = Some acc"
| "parse_dec acc [c] = (if is_digit c then Some (10 * acc + digit_val c) else None)"
| "parse_dec acc (c # d # ds) =
     (if is_digit c then parse_dec (10 * acc + digit_val c) (d # ds)
      else if c = CHR ''_'' \<and> is_digit d then parse_dec (10 * acc + digit_val d) ds
      else None)"

definition parse_unsigned :: "string \<Rightarrow> nat option" where
  "parse_unsigned s =
     (case s of
        [] \<Rightarrow> None
      | c # cs \<Rightarrow> if is_digit c then parse_dec (digit_val c) cs else None)"

definition py_int :: "string \<Rightarrow> int option" where
  "py_int text =
     (case strip text of
        [] \<Rightarrow> None
      | c # cs \<Rightarrow>
          if c = CHR ''-'' then map_option (\<lambda>n. - int n) (parse_unsigned cs)
          else if c = CHR ''+'' then map_option int (parse_unsigned cs)
          else map_option int (parse_unsigned (c # cs)))"

text \<open>
  The operators \<open>key in value\<close> and \<open>value[key]\<close> for a string key, on a value that
  came out of \<open>json()\<close>.
\<close>

fun contains_str :: "string \<Rightarrow> string \<Rightarrow> bool" where
  "contains_str [] p = (p = [])"
| "contains_str (c # cs) p = (startswith (c # cs) p \<or> contains_str cs p)"

fun py_contains :: "json \<Rightarrow> string \<Rightarrow> py_exc + bool" where
  "py_contains (JObj kvs) k = Inr (map_of kvs k \<noteq> None)"
| "py_contains (JArr xs) k = Inr (JStr k \<in> set xs)"
| "py_contains (JStr s) k = Inr (contains_str s k)"
| "py_contains _ k = Inl (TypeError ''argument is not iterable'')"

fun py_getitem :: "json \<Rightarrow> string \<Rightarrow> py_exc + json" where
  "py_getitem (JObj kvs) k = (case map_of kvs k of None \<Rightarrow> Inl (KeyError k) | Some v \<Rightarrow> Inr v)"
| "py_getitem _ k = Inl (TypeError ''indices must be integers'')"

text \<open>
  How a value is rendered inside an f-string: a string as itself; for the other values
  Python's \<open>str\<close> is a parameter.
\<close>

definition py_format :: "(json \<Rightarrow> string) \<Rightarrow> json \<Rightarrow> string" where
  "py_format py_str v = (case v of JStr s \<Rightarrow> s | _ \<Rightarrow> py_str v)"

text \<open>
  The body of the \<open>try\<close> statement in the branch for status 400, given the outcome of
  \<open>error.response.json()\<close>. The value is the exception raised inside the body, if any:
  the parse failure, a failing \<open>in\<close> or subscript, or the \<open>ModelContentFilterError\<close>
  that the body raises itself.
\<close>

definition content_filter_try ::
  "(json \<Rightarrow> string) \<Rightarrow> json option \<Rightarrow> string \<Rightarrow> string \<Rightarrow> py_exc option" where
  "content_filter_try py_str body operation model_name =
     (case body of
        None \<Rightarrow> Some (ValueError ''response body is not JSON'')
      | Some response_data \<Rightarrow>
          (case py_contains response_data ''error'' of
             Inl e \<Rightarrow> Some e
           | Inr False \<Rightarrow> None
           | Inr True \<Rightarrow>
               (case py_getitem response_data ''error'' of
                  Inl e \<Rightarrow> Some e
                | Inr err \<Rightarrow>
                    (case py_contains err ''type'' of
                       Inl e \<Rightarrow> Some e
                     | Inr False \<Rightarrow> None
                     | Inr True \<Rightarrow>
                         (case py_getitem err ''type'' of
                            Inl e \<Rightarrow> Some e
                          | Inr ty \<Rightarrow>
                              if ty = JStr ''content_filter''
                              then let filter_reason =
                                         (case msg_get err ''message'' of
                                            None \<Rightarrow> JStr ''Content filtered''
                                          | Some m \<Rightarrow> m)
                                   in Some (ModelContentFilterError
                                              (''Content filtered: '' @ py_format py_str filter_reason)
                                              operation model_name filter_reason)
                              else None)))))"

text \<open>The value of \<open>retry_after\<close> in the branch for status 429.\<close>

definition retry_after_of :: "raw_error \<Rightarrow> json" where
  "retry_after_of error =
     (case err_response error of
        Absent \<Rightarrow> JNull
      | Present resp \<Rightarrow>
          (case headers resp of
             Absent \<Rightarrow> JNull
           | Present hs \<Rightarrow>
               (case map_of hs ''retry-after'' of
                  None \<Rightarrow> JNull
                | Some retry_after \<Rightarrow>
                    if retry_after \<noteq> []
                    then (case py_int retry_after of
                            Some n \<Rightarrow> JNum (of_int n)
                          | None \<Rightarrow> JNull)
                    else JStr retry_after)))"

text \<open>
  \<open>handle_error(error, operation, model_name)\<close>. It always raises; the value is the
  exception raised.
\<close>

definition handle_error ::
  "(json \<Rightarrow> string) \<Rightarrow> adapter \<Rightarrow> raw_error \<Rightarrow> string \<Rightarrow> string \<Rightarrow> py_exc" where
  "handle_error py_str a error operation model_name =
     (if is_timeout error
      then ModelTimeoutError (err_str error) operation model_name (timeout a)
      else if is_connection_error error
      then ModelAdapterError (''Connection error: '' @ err_str error) operation model_name
      else if is_http_error error \<or>
              (case err_response error of
                 Absent \<Rightarrow> False
               | Present resp \<Rightarrow> status_code resp \<noteq> Absent)
      then
        let sc0 = (case err_status_code error of Absent \<Rightarrow> None | Present v \<Rightarrow> v);
            sc = (if (sc0 = None \<or> sc0 = Some 0) \<and> err_response error \<noteq> Absent
                  then (case err_response error of
                          Present resp \<Rightarrow>
                            (case status_code resp of Absent \<Rightarrow> None | Present v \<Rightarrow> v)
                        | Absent \<Rightarrow> None)
                  else sc0);
            other_http_error =
              ModelAdapterError (''HTTP error '' @ str_status sc @ '': '' @ err_str error)
                operation model_name
        in if sc = Some 401 \<or> sc = Some 403
           then ModelAuthenticationError (''Authentication error: '' @ err_str error)
                  operation model_name
           else if sc = Some 429
           then ModelRateLimitError (''Rate limit exceeded: '' @ err_str error)
                  operation model_name (retry_after_of error)
           else if sc = Some 400
           then (case err_response error of
                   Absent \<Rightarrow> other_http_error
                 | Present resp \<Rightarrow>
                     (case json_body resp of
                        Absent \<Rightarrow> other_http_error
                      | Present body \<Rightarrow>
                          (case content_filter_try py_str body operation model_name of
                             Some raised \<Rightarrow> other_http_error
                           | None \<Rightarrow> other_http_error)))
           else other_http_error
      else ModelAdapterError (err_str error) operation model_name)"

section \<open>The request loop (\<open>adapters/openrouter_adapter.py\<close>)\<close>

text \<open>
  What a call does to the outside world, in order: a \<open>session.post\<close>, or a
  \<open>time.sleep\<close> of the given number of seconds.
\<close>

datatype event = Post | Sleep real

text \<open>
  The loop \<open>while True: try: ... except Exception as error: ...\<close> shared by the four
  generate methods. \<open>attempt k\<close> is the outcome of the body of the \<open>try\<close> statement
  when it runs for the \<open>k\<close>-th time (from 0): the value returned, or the exception
  raised by the post, by \<open>raise_for_status\<close>, by the parsing or by the method itself
  on an invalid response format. \<open>retries\<close> is the counter of the source before it is
  incremented. \<open>time.sleep\<close> raises \<open>ValueError\<close> on a negative argument, and that
  exception leaves the handler.
\<close>

function request_with_retries ::
  "(json \<Rightarrow> string) \<Rightarrow> adapter \<Rightarrow> (nat \<Rightarrow> raw_error + 'r) \<Rightarrow> string \<Rightarrow> string \<Rightarrow> nat \<Rightarrow>
   (py_exc + 'r) \<times> event list" where
  "request_with_retries py_str a attempt operation model retries =
     (case attempt retries of
        Inr r \<Rightarrow> (Inr r, [Post])
      | Inl error \<Rightarrow>
          if int (Suc retries) \<le> max_retries a
          then if retry_delay a * real (Suc retries) < 0
               then (Inl (ValueError ''sleep length must be non-negative''), [Post])
               else (case request_with_retries py_str a attempt operation model (Suc retries) of
                       (res, evs) \<Rightarrow>
                         (res, Post # Sleep (retry_delay a * real (Suc retries)) # evs))
          else (Inl (handle_error py_str a error operation model), [Post]))"
  by pat_completeness auto
termination
  by (relation "measure (\<lambda>(py_str, a, attempt, operation, model, retries).
                  nat (max_retries a + 1 - int retries))") auto

declare request_with_retries.simps [simp del]

text \<open>\<open>model_name or "default"\<close>.\<close>

definition model_or_literal_default :: "string option \<Rightarrow> string" where
  "model_or_literal_default model_name =
     (case model_name of None \<Rightarrow> ''default'' | Some m \<Rightarrow> if m = [] then ''default'' else m)"

text \<open>
  \<open>generate_text(prompt, model_name, parameters)\<close>. \<open>net payload k\<close> is the outcome of
  the \<open>k\<close>-th run of the \<open>try\<close> body for the payload (model, prompt, parameters).
  The value is the text returned or the exception raised, with the events in order.
\<close>

definition generate_text ::
  "settings \<Rightarrow> (json \<Rightarrow> string) \<Rightarrow> adapter \<Rightarrow>
   (string option \<times> string \<times> (string \<rightharpoonup> json) \<Rightarrow> nat \<Rightarrow> raw_error + string) \<Rightarrow>
   string \<Rightarrow> string option \<Rightarrow> (string \<rightharpoonup> json) option \<Rightarrow> (py_exc + string) \<times> event list" where
  "generate_text st py_str a net prompt model_name parameters =
     (let prepared_prompt = prepare_prompt st prompt model_name in
      case prepare_parameters st parameters model_name of
        Inl e \<Rightarrow> (Inl e, [])
      | Inr prepared_params \<Rightarrow>
          request_with_retries py_str a (net (model_name, prepared_prompt, prepared_params))
            ''generate_text'' (model_or_literal_default model_name) 0)"

text \<open>
  \<open>generate_chat_completion(messages, model_name, parameters)\<close>; the value returned by
  the \<open>try\<close> body is the formatted response.
\<close>

definition generate_chat_completion ::
  "settings \<Rightarrow> (json \<Rightarrow> string) \<Rightarrow> adapter \<Rightarrow>
   (string option \<times> json list \<times> (string \<rightharpoonup> json) \<Rightarrow> nat \<Rightarrow> raw_error + json) \<Rightarrow>
   json \<Rightarrow> string option \<Rightarrow> (string \<rightharpoonup> json) option \<Rightarrow> (py_exc + json) \<times> event list" where
  "generate_chat_completion st py_str a net messages model_name parameters =
     (case prepare_messages st messages model_name of
        Inl e \<Rightarrow> (Inl e, [])
      | Inr prepared_messages \<Rightarrow>
          (case prepare_parameters st parameters model_name of
             Inl e \<Rightarrow> (Inl e, [])
           | Inr prepared_params \<Rightarrow>
               request_with_retries py_str a
                 (net (model_name, prepared_messages, prepared_params))
                 ''generate_chat_completion'' (model_or_literal_default model_name) 0))"

section \<open>Extraction of JSON from a response (\<open>utils/data_preprocessing.py\<close>, \<open>utils/prompt_engineering.py\<close>)\<close>

text \<open>
  The character classes of the regular expressions, on code points below 256:
  \<open>\w\<close> is an alphanumeric character or the underscore, \<open>\s\<close> is \<open>py_isspace\<close>.
\<close>

definition py_isword :: "char \<Rightarrow> bool" where
  "py_isword c =
     (let n = (of_char c :: nat)
      in (48 \<le> n \<and> n \<le> 57) \<or> (65 \<le> n \<and> n \<le> 90) \<or> (97 \<le> n \<and> n \<le> 122) \<or> n = 95
         \<or> n \<in> {170, 178, 179, 181, 185, 186, 188, 189, 190}
         \<or> (192 \<le> n \<and> n \<le> 214) \<or> (216 \<le> n \<and> n \<le> 246) \<or> (248 \<le> n \<and> n \<le> 255))"

text \<open>The characters that the class \<open>[^\w\s.,!?\'"-]\<close> does not match, which are kept.\<close>

definition kept_char :: "char \<Rightarrow> bool" where
  "kept_char c =
     (py_isword c \<or> py_isspace c \<or>
      c \<in> {CHR ''.'', CHR '','', CHR ''!'', CHR ''?'', CHR 0x27, CHR 0x22, CHR ''-''})"

text \<open>\<open>re.sub(r'\s+', ' ', text)\<close>: every maximal run of whitespace becomes one space.\<close>

fun collapse_ws :: "bool \<Rightarrow> string \<Rightarrow> string" where
  "collapse_ws in_run [] = []"
| "collapse_ws in_run (c # cs) =
     (if py_isspace c
      then (if in_run then collapse_ws True cs else CHR '' '' # collapse_ws True cs)
      else c # collapse_ws False cs)"

text \<open>\<open>str.lower()\<close> on code points below 256.\<close>

definition py_lower :: "char \<Rightarrow> char" where
  "py_lower c =
     (let n = (of_char c :: nat)
      in if (65 \<le> n \<and> n \<le> 90) \<or> (192 \<le> n \<and> n \<le> 214) \<or> (216 \<le> n \<and> n \<le> 222)
         then char_of (n + 32) else c)"

text \<open>\<open>clean_text_data(text, lowercase, max_length)\<close> on a string.\<close>

definition clean_text_data :: "string \<Rightarrow> bool \<Rightarrow> nat option \<Rightarrow> string" where
  "clean_text_data text lowercase max_length =
     (let cleaned_text = filter kept_char text;
          cleaned_text = strip (collapse_ws False cleaned_text);
          cleaned_text = (if lowercase then map py_lower cleaned_text else cleaned_text)
      in case max_length of
           None \<Rightarrow> cleaned_text
         | Some n \<Rightarrow> if n \<noteq> 0 \<and> length cleaned_text > n then take n cleaned_text
                     else cleaned_text)"

text \<open>
  The pattern of \<open>extract_json_from_response\<close> has two alternatives. The first is a
  fence of three backquotes, an optional \<open>json\<close>, whitespace, a shortest text (group 1)
  and a closing fence. A fence contains no whitespace and no letter, so the greedy
  choices for \<open>json\<close> and the whitespace never have to be undone: the alternative
  matches exactly when a fence follows them, and group 1 ends at the first one.
\<close>

definition fence :: string where
  "fence = [CHR 0x60, CHR 0x60, CHR 0x60]"

fun split_fence :: "string \<Rightarrow> (string \<times> string) option" where
  "split_fence [] = None"
| "split_fence (c # cs) =
     (if startswith (c # cs) fence then Some ([], drop 3 (c # cs))
      else map_option (\<lambda>(g, rest). (c # g, rest)) (split_fence cs))"

text \<open>Group 1 and the length of the match of the first alternative at the head of \<open>s\<close>.\<close>

definition match_fenced :: "string \<Rightarrow> (string \<times> nat) option" where
  "match_fenced s =
     (if startswith s fence
      then let r1 = drop 3 s;
               r2 = (if startswith r1 ''json'' then drop 4 r1 else r1);
               r3 = dropWhile py_isspace r2
           in map_option (\<lambda>(g, rest). (g, length s - length rest)) (split_fence r3)
      else None)"

text \<open>The longest prefix of \<open>s\<close> that ends with \<open>ch\<close>.\<close>

definition upto_last :: "char \<Rightarrow> string \<Rightarrow> string option" where
  "upto_last ch s =
     (if ch \<in> set s then Some (rev (dropWhile (\<lambda>x. x \<noteq> ch) (rev s))) else None)"

text \<open>
  The second alternative (group 2): an opening brace and everything up to the last
  closing brace, or the same with brackets.
\<close>

definition match_braced :: "string \<Rightarrow> (string \<times> nat) option" where
  "match_braced s =
     (case s of
        [] \<Rightarrow> None
      | c # cs \<Rightarrow>
          if c = CHR ''{'' then map_option (\<lambda>g. (c # g, Suc (length g))) (upto_last CHR ''}'' cs)
          else if c = CHR ''['' then map_option (\<lambda>g. (c # g, Suc (length g))) (upto_last CHR '']'' cs)
          else None)"

text \<open>
  \<open>re.findall(json_pattern, text)\<close>: the matches from left to right, without overlap,
  each as the pair of its groups (the empty string for the group that took no part).
  \<open>skip\<close> counts the characters still covered by the last match.
\<close>

fun findall_json :: "nat \<Rightarrow> string \<Rightarrow> (string \<times> string) list" where
  "findall_json skip [] = []"
| "findall_json (Suc k) (c # cs) = findall_json k cs"
| "findall_json 0 (c # cs) =
     (case match_fenced (c # cs) of
        Some (g, n) \<Rightarrow> (g, []) # findall_json (n - 1) cs
      | None \<Rightarrow>
          (case match_braced (c # cs) of
             Some (g, n) \<Rightarrow> ([], g) # findall_json (n - 1) cs
           | None \<Rightarrow> findall_json 0 cs))"

text \<open>The two nested \<open>for\<close> loops that pick \<open>json_str\<close> among the groups.\<close>

definition is_candidate :: "string \<Rightarrow> bool" where
  "is_candidate grp =
     (grp \<noteq> [] \<and> (startswith (strip grp) ''{'' \<or> startswith (strip grp) ''[''))"

fun first_candidate :: "(string \<times> string) list \<Rightarrow> string option" where
  "first_candidate [] = None"
| "first_candidate ((g1, g2) # matches) =
     (if is_candidate g1 then Some (strip g1)
      else if is_candidate g2 then Some (strip g2)
      else first_candidate matches)"

text \<open>\<open>str.find\<close> and \<open>str.rfind\<close> for one character; \<open>-1\<close> when it does not occur.\<close>

definition py_find :: "char \<Rightarrow> string \<Rightarrow> int" where
  "py_find ch s =
     (if ch \<in> set s then int (length (takeWhile (\<lambda>x. x \<noteq> ch) s)) else - 1)"

definition py_rfind :: "char \<Rightarrow> string \<Rightarrow> int" where
  "py_rfind ch s =
     (if ch \<in> set s
      then int (length s) - 1 - int (length (takeWhile (\<lambda>x. x \<noteq> ch) (rev s)))
      else - 1)"

text \<open>The direct extraction tried when no group qualified.\<close>

definition direct_json :: "string \<Rightarrow> string option" where
  "direct_json cleaned_response =
     (let start_idx = (if CHR ''{'' \<in> set cleaned_response
                       then py_find CHR ''{'' cleaned_response
                       else py_find CHR ''['' cleaned_response);
          end_idx = (if CHR ''}'' \<in> set cleaned_response
                     then py_rfind CHR ''}'' cleaned_response
                     else py_rfind CHR '']'' cleaned_response)
      in if start_idx \<noteq> - 1 \<and> end_idx \<noteq> - 1 \<and> end_idx > start_idx
         then Some (take (nat (end_idx + 1 - start_idx)) (drop (nat start_idx) cleaned_response))
         else None)"

text \<open>
  \<open>extract_json_from_response(response)\<close>. \<open>loads\<close> is \<open>json.loads\<close>, with \<open>None\<close>
  for \<open>JSONDecodeError\<close>. The empty dictionary is returned when nothing was extracted.
\<close>

definition extract_json_from_response :: "(string \<Rightarrow> json option) \<Rightarrow> string \<Rightarrow> json" where
  "extract_json_from_response loads response =
     (let cleaned_response = clean_text_data response False None;
          matches = findall_json 0 cleaned_response;
          json_str = (case first_candidate matches of
                        Some j \<Rightarrow> Some j
                      | None \<Rightarrow> direct_json cleaned_response)
      in case json_str of
           Some j \<Rightarrow> (case loads j of Some v \<Rightarrow> v | None \<Rightarrow> JObj [])
         | None \<Rightarrow> JObj [])"

section \<open>The matching model's dispatch (\<open>models/matching_model.py\<close>)\<close>

text \<open>
  \<open>value.get(key, default)\<close>: defined on dictionaries, \<open>AttributeError\<close> otherwise.
\<close>

fun py_dict_get :: "json \<Rightarrow> string \<Rightarrow> json \<Rightarrow> py_exc + json" where
  "py_dict_get (JObj kvs) k dflt = Inr (case map_of kvs k of None \<Rightarrow> dflt | Some v \<Rightarrow> v)"
| "py_dict_get _ k dflt = Inl (AttributeError ''object has no attribute get'')"

text \<open>
  The checks \<open>if 'a' not in data or 'b' not in data: raise ValueError(msg)\<close>, from
  left to right.
\<close>

fun require_keys :: "json \<Rightarrow> string list \<Rightarrow> string \<Rightarrow> py_exc + unit" where
  "require_keys d [] msg = Inr ()"
| "require_keys d (k # ks) msg =
     (case py_contains d k of
        Inl e \<Rightarrow> Inl e
      | Inr False \<Rightarrow> Inl (ValueError msg)
      | Inr True \<Rightarrow> require_keys d ks msg)"

text \<open>The arguments of a call are evaluated from left to right; the first failure raises.\<close>

fun eval_args :: "(py_exc + json) list \<Rightarrow> py_exc + json list" where
  "eval_args [] = Inr []"
| "eval_args (x # xs) =
     (case x of
        Inl e \<Rightarrow> Inl e
      | Inr v \<Rightarrow> (case eval_args xs of Inl e \<Rightarrow> Inl e | Inr vs \<Rightarrow> Inr (v # vs)))"

definition MATCHING_TYPES :: "string list" where
  "MATCHING_TYPES = [''user_tribe'', ''tribe_formation'', ''compatibility'']"

text \<open>
  The body of the \<open>try\<close> statement of \<open>MatchingModel.perform_matching\<close> up to the
  call it makes: the method called and its arguments, or the exception raised before
  any call.
\<close>

definition matching_call :: "string \<Rightarrow> json \<Rightarrow> json \<Rightarrow> py_exc + (string \<times> json list)" where
  "matching_call matching_type data options =
     (if matching_type = ''user_tribe''
      then (case require_keys data [''user_profile'', ''tribes'']
                   ''user_tribe matching requires 'user_profile' and 'tribes' data'' of
              Inl e \<Rightarrow> Inl e
            | Inr _ \<Rightarrow>
                (case eval_args [py_getitem data ''user_profile'', py_getitem data ''tribes'',
                                 py_dict_get options ''factor_weights'' JNull] of
                   Inl e \<Rightarrow> Inl e
                 | Inr args \<Rightarrow> Inr (''match_user_to_tribes'', args)))
      else if matching_type = ''tribe_formation''
      then (case require_keys data [''user_profiles'']
                   ''tribe_formation matching requires 'user_profiles' data'' of
              Inl e \<Rightarrow> Inl e
            | Inr _ \<Rightarrow>
                (case eval_args [py_getitem data ''user_profiles'',
                                 py_dict_get options ''min_tribe_size'' JNull,
                                 py_dict_get options ''max_tribe_size'' JNull] of
                   Inl e \<Rightarrow> Inl e
                 | Inr args \<Rightarrow> Inr (''form_tribes'', args)))
      else (case require_keys data [''user_profile'', ''target'']
                   ''compatibility matching requires 'user_profile' and 'target' data'' of
              Inl e \<Rightarrow> Inl e
            | Inr _ \<Rightarrow>
                (case eval_args [py_getitem data ''user_profile'', py_getitem data ''target'',
                                 py_dict_get options ''target_type'' (JStr ''user''),
                                 py_dict_get options ''factor_weights'' JNull] of
                   Inl e \<Rightarrow> Inl e
                 | Inr args \<Rightarrow> Inr (''calculate_compatibility'', args))))"

text \<open>
  The handlers of that \<open>try\<close> statement: a \<open>ValueError\<close> is raised again, any other
  exception is replaced by the empty result of the matching type.
\<close>

definition empty_matching_result :: "string \<Rightarrow> json" where
  "empty_matching_result matching_type =
     (if matching_type = ''user_tribe'' \<or> matching_type = ''tribe_formation''
      then JArr [] else JObj [])"

definition matching_handlers :: "string \<Rightarrow> py_exc + json \<Rightarrow> py_exc + json" where
  "matching_handlers matching_type outcome =
     (case outcome of
        Inr r \<Rightarrow> Inr r
      | Inl (ValueError msg) \<Rightarrow> Inl (ValueError msg)
      | Inl e \<Rightarrow> Inr (empty_matching_result matching_type))"

text \<open>
  \<open>MatchingModel.perform_matching(matching_type, data, options)\<close>. The three methods
  it dispatches to (\<open>match_user_to_tribes\<close>, \<open>form_tribes\<close>,
  \<open>calculate_compatibility\<close>) normalise their arguments, build a prompt, send it
  through the adapter and parse the reply; what such a call returns or raises depends
  on the network and is the parameter \<open>operation\<close>, given the number of calls made
  before, the method and the arguments. \<open>calls\<close> is the list of the calls made so
  far; a call is recorded when the method is entered.
\<close>

definition model_perform_matching ::
  "(nat \<Rightarrow> string \<Rightarrow> json list \<Rightarrow> py_exc + json) \<Rightarrow> (string \<times> json list) list \<Rightarrow>
   string \<Rightarrow> json \<Rightarrow> json \<Rightarrow> (py_exc + json) \<times> (string \<times> json list) list" where
  "model_perform_matching operation calls matching_type data options =
     (if matching_type \<notin> set MATCHING_TYPES
      then (Inl (ValueError
                   ''Matching type must be one of: user_tribe, tribe_formation, compatibility''),
            calls)
      else case matching_call matching_type data options of
             Inl e \<Rightarrow> (matching_handlers matching_type (Inl e), calls)
           | Inr (method, args) \<Rightarrow>
               (matching_handlers matching_type (operation (length calls) method args),
                calls @ [(method, args)]))"

section \<open>Result cache of the matching service (\<open>services/matching_service.py\<close>)\<close>

text \<open>
  A cache entry is the dictionary \<open>{'result': ..., 'timestamp': ...}\<close> that
  \<open>cache_result\<close> builds; it is the only writer, so both keys are always present.
\<close>

record cache_entry =
  result :: json
  timestamp :: real

text \<open>
  The fields of \<open>MatchingService\<close> that the cache code reads. \<open>cache\<close> is \<open>None\<close>
  when caching is disabled and a dictionary (insertion ordered) otherwise.
  \<open>model_calls\<close> is not a field of the class: it records, in order, the calls the
  underlying matching model has made to its methods, each of which sends a request
  through the adapter, so that claims on "no model invocation" can be stated.
\<close>

record matching_service =
  cache_enabled :: bool
  cache :: "(string \<times> cache_entry) list option"
  cache_ttl :: real
  default_model :: string
  model_calls :: "(string \<times> json list) list"

text \<open>
  What the service calls but this development does not look into: the SHA-256
  fingerprint of the canonical JSON, the methods of the matching model (see
  \<open>model_perform_matching\<close>), and the formatting of the error response.
\<close>

record matching_env =
  generate_cache_key :: "string \<Rightarrow> json \<Rightarrow> json \<Rightarrow> string \<Rightarrow> string"
  model_operation :: "nat \<Rightarrow> string \<Rightarrow> json list \<Rightarrow> py_exc + json"
  handle_error_response :: "py_exc \<Rightarrow> string \<Rightarrow> real \<Rightarrow> json"

text \<open>
  \<open>MatchingService.__init__\<close> for a configuration with the keys \<open>cache_enabled\<close>,
  \<open>cache_ttl\<close>, \<open>model\<close> and possibly \<open>api_key\<close> (and no \<open>adapter_config\<close>).
  The cache is an empty dictionary when enabled. The constructor builds the matching
  model, which builds the OpenRouter adapter with \<open>config.get('api_key', None)\<close>, and
  that raises \<open>ValueError\<close> when the key is absent or empty.
\<close>

definition new_matching_service ::
  "bool \<Rightarrow> real \<Rightarrow> string \<Rightarrow> string option \<Rightarrow> py_exc + matching_service" where
  "new_matching_service enabled ttl model api_key =
     (if api_key = None \<or> api_key = Some []
      then Inl (ValueError ''OpenRouter API key is required.'')
      else Inr \<lparr>cache_enabled = enabled,
                cache = (if enabled then Some [] else None),
                cache_ttl = ttl,
                default_model = model,
                model_calls = []\<rparr>)"

text \<open>\<open>not self._cache\<close>: true for \<open>None\<close> and for the empty dictionary.\<close>

definition not_cache :: "(string \<times> cache_entry) list option \<Rightarrow> bool" where
  "not_cache c = (case c of None \<Rightarrow> True | Some al \<Rightarrow> al = [])"

text \<open>
  \<open>get_cached_result(cache_key)\<close>, with the value of \<open>time.time()\<close> as \<open>now\<close>.
  Returns the value and the service after the call (an expired entry is deleted).
\<close>

definition get_cached_result ::
  "matching_service \<Rightarrow> string \<Rightarrow> real \<Rightarrow> json \<times> matching_service" where
  "get_cached_result s cache_key now =
     (if \<not> cache_enabled s \<or> not_cache (cache s) then (JNull, s)
      else case cache s of
        None \<Rightarrow> (JNull, s)
      | Some c \<Rightarrow>
          (case map_of c cache_key of
             Some entry \<Rightarrow>
               if now - timestamp entry > cache_ttl s
               then (JNull, s\<lparr>cache := Some (AList.delete cache_key c)\<rparr>)
               else (result entry, s)
           | None \<Rightarrow> (JNull, s)))"

text \<open>\<open>cache_result(cache_key, result)\<close>, with the value of \<open>time.time()\<close> as \<open>now\<close>.\<close>

definition cache_result ::
  "matching_service \<Rightarrow> string \<Rightarrow> json \<Rightarrow> real \<Rightarrow> matching_service" where
  "cache_result s cache_key res now =
     (if \<not> cache_enabled s \<or> not_cache (cache s) then s
      else s\<lparr>cache :=
             map_option (AList.update cache_key \<lparr>result = res, timestamp = now\<rparr>) (cache s)\<rparr>)"

text \<open>
  \<open>perform_matching(matching_type, data, options, model_name)\<close>. \<open>t_read\<close> and
  \<open>t_write\<close> are the clock values at the cache lookup and at the cache store.
\<close>

definition perform_matching ::
  "matching_env \<Rightarrow> matching_service \<Rightarrow> real \<Rightarrow> real \<Rightarrow> string \<Rightarrow> json option \<Rightarrow>
   json option \<Rightarrow> string option \<Rightarrow> (py_exc + json) \<times> matching_service" where
  "perform_matching env s t_read t_write matching_type data options model_name =
     (if matching_type \<notin> set MATCHING_TYPES
      then (Inl (ValueError (''Invalid matching type: '' @ matching_type)), s)
      else
        let data' = (case data of None \<Rightarrow> JObj [] | Some d \<Rightarrow> d);
            options' = (case options of None \<Rightarrow> JObj [] | Some opts \<Rightarrow> opts);
            model_name' = (case model_name of None \<Rightarrow> default_model s | Some m \<Rightarrow> m);
            cache_key = generate_cache_key env matching_type data' options' model_name';
            (cached_result, s1) = get_cached_result s cache_key t_read
        in if truthy cached_result then (Inr cached_result, s1)
           else
             let (outcome, calls) =
                   model_perform_matching (model_operation env) (model_calls s1)
                     matching_type data' options';
                 s2 = s1\<lparr>model_calls := calls\<rparr>
             in case outcome of
                  Inr res \<Rightarrow> (Inr res, cache_result s2 cache_key res t_write)
                | Inl e \<Rightarrow>
                    (Inr (handle_error_response env e
                            (''perform_matching - '' @ matching_type) t_write), s2))"

section \<open>Concrete inputs\<close>

text \<open>A service whose cache holds one entry, stored at time 100, with a TTL of one hour.\<close>

definition example_service :: matching_service where
  "example_service =
     \<lparr>cache_enabled = True,
      cache = Some [(''k1'', \<lparr>result = JObj [(''score'', JNum 1)], timestamp = 100\<rparr>)],
      cache_ttl = 3600,
      default_model = ''openai/gpt-4'',
      model_calls = []\<rparr>"

text \<open>The adapter with its default retry configuration and a timeout of 30 seconds.\<close>

definition example_adapter :: adapter where
  "example_adapter = \<lparr>timeout = 30, max_retries = 3, retry_delay = 1\<rparr>"

text \<open>
  The exception \<open>raise_for_status\<close> of the requests library raises: a
  \<open>requests.HTTPError\<close> with message \<open>msg\<close>, whose \<open>response\<close> has the status code,
  the headers and a \<open>json()\<close> method. The exception itself has no \<open>status_code\<close>.
\<close>

definition requests_HTTPError ::
  "string \<Rightarrow> int \<Rightarrow> (string \<times> string) list \<Rightarrow> json option \<Rightarrow> raw_error" where
  "requests_HTTPError msg sc hs body =
     \<lparr>is_timeout = False, is_connection_error = False, is_http_error = True,
      err_status_code = Absent,
      err_response = Present \<lparr>status_code = Present (Some sc), headers = Present hs,
                                json_body = Present body\<rparr>,
      err_str = msg\<rparr>"

text \<open>
  The exception \<open>raise_for_status\<close> of aiohttp raises: an
  \<open>aiohttp.ClientResponseError\<close>. It carries the status in its attribute \<open>status\<close>
  and has neither \<open>status_code\<close> nor \<open>response\<close>, so \<open>handle_error\<close> cannot see
  the status.
\<close>

definition aiohttp_ClientResponseError :: "string \<Rightarrow> int \<Rightarrow> raw_error" where
  "aiohttp_ClientResponseError msg status =
     \<lparr>is_timeout = False, is_connection_error = False, is_http_error = True,
      err_status_code = Absent, err_response = Absent, err_str = msg\<rparr>"

text \<open>\<open>requests.ConnectionError(msg)\<close>: its \<open>response\<close> attribute is \<open>None\<close>.\<close>

definition requests_ConnectionError :: "string \<Rightarrow> raw_error" where
  "requests_ConnectionError msg =
     \<lparr>is_timeout = False, is_connection_error = True, is_http_error = False,
      err_status_code = Absent,
      err_response = Present \<lparr>status_code = Absent, headers = Absent, json_body = Absent\<rparr>,
      err_str = msg\<rparr>"

text \<open>The body of the provider's content-filter rejection used in the adapter's tests.\<close>

definition content_filter_body :: json where
  "content_filter_body =
     JObj [(''error'', JObj [(''type'', JStr ''content_filter''),
                             (''message'', JStr ''Content violates usage policies'')])]"

text \<open>The number of posts and the sleeps of a call, read off its events.\<close>

fun attempts :: "event list \<Rightarrow> nat" where
  "attempts [] = 0"
| "attempts (Post # evs) = Suc (attempts evs)"
| "attempts (Sleep d # evs) = attempts evs"

fun delays :: "event list \<Rightarrow> real list" where
  "delays [] = []"
| "delays (Post # evs) = delays evs"
| "delays (Sleep d # evs) = d # delays evs"

text \<open>A network on which every attempt fails with the same exception.\<close>

definition always_fails :: "raw_error \<Rightarrow> 'p \<Rightarrow> nat \<Rightarrow> raw_error + 'r" where
  "always_fails error payload k = Inl error"

text \<open>A network on which every attempt returns the same value.\<close>

definition always_returns :: "'r \<Rightarrow> 'p \<Rightarrow> nat \<Rightarrow> raw_error + 'r" where
  "always_returns r payload k = Inr r"

definition example_settings :: settings where
  "example_settings = \<lparr>DEFAULT_MODEL = ''openai/gpt-4'', MODEL_TIMEOUT = 30\<rparr>"

text \<open>Python's \<open>str\<close> on values that are not strings is not needed on the examples.\<close>

definition example_py_str :: "json \<Rightarrow> string" where
  "example_py_str v = ''?''"


text \<open>
  The ranges of the claim on a parameter dictionary: a temperature in \<open>[0, 2]\<close> and a
  \<open>top_p\<close> in \<open>(0, 1]\<close>, when the key is present; and a value that is a number.
\<close>

definition valid_temperature :: "(string \<rightharpoonup> json) \<Rightarrow> bool" where
  "valid_temperature p =
     (case p ''temperature'' of
        None \<Rightarrow> True
      | Some v \<Rightarrow> (case py_num v of None \<Rightarrow> False | Some r \<Rightarrow> 0 \<le> r \<and> r \<le> 2))"

definition valid_top_p :: "(string \<rightharpoonup> json) \<Rightarrow> bool" where
  "valid_top_p p =
     (case p ''top_p'' of
        None \<Rightarrow> True
      | Some v \<Rightarrow> (case py_num v of None \<Rightarrow> False | Some r \<Rightarrow> 0 < r \<and> r \<le> 1))"

definition numeric_param :: "(string \<rightharpoonup> json) \<Rightarrow> string \<Rightarrow> bool" where
  "numeric_param p k = (case p k of None \<Rightarrow> True | Some v \<Rightarrow> py_num v \<noteq> None)"

text \<open>A parameter dictionary with both values out of range.\<close>

definition example_parameters :: "string \<rightharpoonup> json" where
  "example_parameters = [''temperature'' \<mapsto> JNum 3.5, ''top_p'' \<mapsto> JNum (- 1)]"

text \<open>A formatted chat response.\<close>

definition example_response :: json where
  "example_response =
     JObj [(''message'', JObj [(''role'', JStr ''assistant''), (''content'', JStr ''hello'')])]"

text \<open>
  Data for a \<open>user_tribe\<close> matching with the two fields the matching model requires,
  and the call to \<open>match_user_to_tribes\<close> it leads to (no \<open>factor_weights\<close> option).
\<close>

definition example_matching_data :: json where
  "example_matching_data =
     JObj [(''user_profile'', JObj [(''id'', JStr ''u1''), (''name'', JStr ''Ann'')]),
           (''tribes'', JArr [JObj [(''id'', JStr ''t1''), (''name'', JStr ''Hikers'')]])]"

definition example_model_call :: "string \<times> json list" where
  "example_model_call =
     (''match_user_to_tribes'',
      [JObj [(''id'', JStr ''u1''), (''name'', JStr ''Ann'')],
       JArr [JObj [(''id'', JStr ''t1''), (''name'', JStr ''Hikers'')]],
       JNull])"

text \<open>
  The retryable kinds of the specification (section 4.2), on a classified error: the
  generic error, which includes connection failures, and the timeout. Authentication,
  rate-limit and content-filter errors are the non-retryable kinds.
\<close>

fun retryable_kind :: "py_exc \<Rightarrow> bool" where
  "retryable_kind (ModelAdapterError msg operation model_name) = True"
| "retryable_kind (ModelTimeoutError msg operation model_name t) = True"
| "retryable_kind _ = False"

text \<open>A parameter dictionary out of range on the other side of each interval.\<close>

definition example_parameters_other :: "string \<rightharpoonup> json" where
  "example_parameters_other = [''temperature'' \<mapsto> JNum (- 1), ''top_p'' \<mapsto> JNum 1.5]"

section \<open>The cache lookup\<close>

lemma get_cached_result_expired:
  assumes "cache_enabled s" and "cache s = Some c" and "map_of c k = Some e"
    and "now - timestamp e > cache_ttl s"
  shows "get_cached_result s k now = (JNull, s\<lparr>cache := Some (AList.delete k c)\<rparr>)"
proof -
  from assms(3) have "c \<noteq> []" by auto
  with assms show ?thesis by (simp add: get_cached_result_def not_cache_def)
qed

lemma get_cached_result_fresh:
  assumes "cache_enabled s" and "cache s = Some c" and "map_of c k = Some e"
    and "\<not> now - timestamp e > cache_ttl s"
  shows "get_cached_result s k now = (result e, s)"
proof -
  from assms(3) have "c \<noteq> []" by auto
  with assms show ?thesis by (simp add: get_cached_result_def not_cache_def)
qed

lemma get_cached_result_value:
  assumes "fst (get_cached_result s k now) \<noteq> JNull"
  shows "\<exists>c e. cache s = Some c \<and> map_of c k = Some e \<and> \<not> now - timestamp e > cache_ttl s
           \<and> get_cached_result s k now = (result e, s)"
  using assms
  by (auto simp: get_cached_result_def split: if_splits option.splits)

text \<open>
  Claim C6. For every cache key and every read time, \<open>get_cached_result\<close> never returns
  a stored entry once \<open>now - created_at > ttl\<close>: on a service with caching enabled, a
  read of an expired entry returns \<open>None\<close> and leaves the cache without that key (and
  otherwise as it was), and a read of an entry that has not expired returns its result
  and leaves the service unchanged. Conversely, whatever the service, a value other
  than \<open>None\<close> is only ever returned from an entry that has not expired, and then
  nothing is mutated.
\<close>

theorem get_cached_result_respects_ttl:
  "(\<forall>c e. cache_enabled s \<and> cache s = Some c \<and> map_of c k = Some e \<longrightarrow>
       (if now - timestamp e > cache_ttl s
        then get_cached_result s k now = (JNull, s\<lparr>cache := Some (AList.delete k c)\<rparr>)
             \<and> map_of (AList.delete k c) k = None
        else get_cached_result s k now = (result e, s)))
   \<and> (fst (get_cached_result s k now) \<noteq> JNull \<longrightarrow>
        (\<exists>c e. cache s = Some c \<and> map_of c k = Some e \<and> \<not> now - timestamp e > cache_ttl s
           \<and> get_cached_result s k now = (result e, s)))"
proof (intro conjI allI impI)
  fix c e
  assume h: "cache_enabled s \<and> cache s = Some c \<and> map_of c k = Some e"
  show "if now - timestamp e > cache_ttl s
        then get_cached_result s k now = (JNull, s\<lparr>cache := Some (AList.delete k c)\<rparr>)
             \<and> map_of (AList.delete k c) k = None
        else get_cached_result s k now = (result e, s)"
    using h get_cached_result_expired [of s c k e now] get_cached_result_fresh [of s c k e now]
    by (simp add: delete_conv')
next
  assume "fst (get_cached_result s k now) \<noteq> JNull"
  then show "\<exists>c e. cache s = Some c \<and> map_of c k = Some e \<and> \<not> now - timestamp e > cache_ttl s
           \<and> get_cached_result s k now = (result e, s)"
    by (rule get_cached_result_value)
qed

theorem get_cached_result_respects_ttl_witness:
  "get_cached_result example_service ''k1'' 3701
     = (JNull, example_service\<lparr>cache := Some []\<rparr>)
   \<and> get_cached_result example_service ''k1'' 3700
     = (JObj [(''score'', JNum 1)], example_service)"
proof -
  let ?e = "\<lparr>result = JObj [(''score'', JNum 1)], timestamp = 100\<rparr>"
  let ?c = "[(''k1'', ?e)]"
  have h: "cache_enabled example_service \<and> cache example_service = Some ?c
           \<and> map_of ?c ''k1'' = Some ?e"
    by (simp add: example_service_def)
  have expired: "3701 - timestamp ?e > cache_ttl example_service"
    by (simp add: example_service_def)
  have fresh: "\<not> 3700 - timestamp ?e > cache_ttl example_service"
    by (simp add: example_service_def)
  have d: "AList.delete ''k1'' ?c = []" by simp
  from get_cached_result_respects_ttl [of example_service "''k1''" 3701] h expired
  have "get_cached_result example_service ''k1'' 3701
          = (JNull, example_service\<lparr>cache := Some (AList.delete ''k1'' ?c)\<rparr>)"
    by metis
  moreover
  from get_cached_result_respects_ttl [of example_service "''k1''" 3700] h fresh
  have "get_cached_result example_service ''k1'' 3700 = (result ?e, example_service)"
    by metis
  ultimately show ?thesis by (simp only: d cache_entry.simps)
qed

section \<open>The cache is never filled\<close>

text \<open>
  \<open>cache_result\<close> returns early on \<open>not self._cache\<close>, which is true of the empty
  dictionary the service starts with: nothing is ever stored.
\<close>

lemma cache_result_empty:
  "cache s = Some [] \<Longrightarrow> cache_result s k r now = s"
  by (simp add: cache_result_def not_cache_def)

lemma get_cached_result_empty:
  "cache s = Some [] \<Longrightarrow> get_cached_result s k now = (JNull, s)"
  by (simp add: get_cached_result_def not_cache_def)

lemma matching_call_example:
  "matching_call ''user_tribe'' example_matching_data (JObj []) = Inr example_model_call"
  by (simp add: matching_call_def example_matching_data_def example_model_call_def)

text \<open>
  On the example data the matching model enters \<open>match_user_to_tribes\<close>, whatever
  that call then returns or raises.
\<close>

lemma model_perform_matching_example:
  "snd (model_perform_matching operation calls ''user_tribe'' example_matching_data (JObj []))
     = calls @ [example_model_call]"
  by (simp add: model_perform_matching_def MATCHING_TYPES_def matching_call_example
        example_model_call_def)

text \<open>
  A call on a service whose cache is the empty dictionary reaches the model and leaves
  the cache empty, whether the model's method returns a result (which \<open>cache_result\<close>
  then drops) or raises.
\<close>

lemma perform_matching_empty_cache:
  assumes "cache s = Some []"
  shows "snd (perform_matching env s t_read t_write ''user_tribe''
                (Some example_matching_data) None None)
           = s\<lparr>model_calls := model_calls s @ [example_model_call]\<rparr>"
proof -
  let ?m = "model_perform_matching (model_operation env) (model_calls s) ''user_tribe''
              example_matching_data (JObj [])"
  have ty: "''user_tribe'' \<in> set MATCHING_TYPES" by (simp add: MATCHING_TYPES_def)
  obtain outcome calls where m: "?m = (outcome, calls)" by (cases ?m)
  with model_perform_matching_example [of "model_operation env" "model_calls s"]
  have c: "calls = model_calls s @ [example_model_call]" by simp
  show ?thesis
    using ty m c
    by (cases outcome)
       (simp_all add: perform_matching_def get_cached_result_empty [OF assms]
          cache_result_empty assms)
qed

text \<open>
  Claim C1 (fails on the code). A service constructed with caching enabled, a TTL of
  3600 seconds and an API key; two \<open>perform_matching\<close> calls with identical
  arguments, of type \<open>user_tribe\<close> with a user profile and a list of tribes, at any
  clock values. Whatever the underlying model's method returns or raises, the cache is
  still the empty dictionary after the first call, and the second call enters the
  model's method again: two calls are recorded, not one.
\<close>

theorem perform_matching_second_call_invokes_model:
  "(case new_matching_service True 3600 ''openai/gpt-4'' (Some ''sk-test'') of
      Inl e \<Rightarrow> False
    | Inr s0 \<Rightarrow>
        (let (r1, s1) = perform_matching env s0 t1 t1' ''user_tribe''
                          (Some example_matching_data) None None;
             (r2, s2) = perform_matching env s1 t2 t2' ''user_tribe''
                          (Some example_matching_data) None None
         in cache s0 = Some [] \<and> cache s1 = Some [] \<and> cache s2 = Some []
            \<and> model_calls s1 = [example_model_call]
            \<and> model_calls s2 = [example_model_call, example_model_call]))"
proof -
  let ?s0 = "\<lparr>cache_enabled = True, cache = Some [], cache_ttl = 3600,
              default_model = ''openai/gpt-4'', model_calls = []\<rparr>"
  let ?s1 = "?s0\<lparr>model_calls := model_calls ?s0 @ [example_model_call]\<rparr>"
  let ?s2 = "?s1\<lparr>model_calls := model_calls ?s1 @ [example_model_call]\<rparr>"
  have n: "new_matching_service True 3600 ''openai/gpt-4'' (Some ''sk-test'') = Inr ?s0"
    by (simp add: new_matching_service_def)
  have first: "snd (perform_matching env ?s0 t1 t1' ''user_tribe''
                      (Some example_matching_data) None None) = ?s1"
    by (rule perform_matching_empty_cache) simp
  have second: "snd (perform_matching env ?s1 t2 t2' ''user_tribe''
                       (Some example_matching_data) None None) = ?s2"
    by (rule perform_matching_empty_cache) simp
  obtain r1 where 1: "perform_matching env ?s0 t1 t1' ''user_tribe''
                        (Some example_matching_data) None None = (r1, ?s1)"
    using first by (metis prod.collapse)
  obtain r2 where 2: "perform_matching env ?s1 t2 t2' ''user_tribe''
                        (Some example_matching_data) None None = (r2, ?s2)"
    using second by (metis prod.collapse)
  from 1 2 show ?thesis
    by (simp add: n Let_def)
qed

section \<open>Extraction after cleaning\<close>

text \<open>
  \<open>clean_text_data\<close> keeps only word characters, whitespace and \<open>.,!?'"-\<close>. Braces,
  brackets, colons and backquotes are deleted before the pattern is searched.
\<close>

lemma kept_char_not_json:
  "kept_char c \<Longrightarrow> c \<noteq> CHR ''{'' \<and> c \<noteq> CHR ''['' \<and> c \<noteq> CHR 0x60"
  by (auto simp: kept_char_def py_isword_def py_isspace_def)

lemma collapse_ws_set: "set (collapse_ws b s) \<subseteq> insert (CHR '' '') (set s)"
  by (induction b s rule: collapse_ws.induct) auto

lemma strip_set: "set (strip s) \<subseteq> set s"
  by (auto simp: strip_def dest!: set_dropWhileD)

lemma kept_space: "kept_char (CHR '' '')"
  by (simp add: kept_char_def py_isspace_def)

lemma clean_text_data_kept:
  assumes "c \<in> set (clean_text_data text False None)"
  shows "kept_char c"
proof -
  from assms have "c \<in> set (strip (collapse_ws False (filter kept_char text)))"
    by (simp add: clean_text_data_def)
  then have "c \<in> insert (CHR '' '') (set (filter kept_char text))"
    using strip_set collapse_ws_set by blast
  then show ?thesis using kept_space by auto
qed

lemma match_fenced_none: "c \<noteq> CHR 0x60 \<Longrightarrow> match_fenced (c # cs) = None"
  by (simp add: match_fenced_def startswith_def fence_def)

lemma match_braced_none:
  "c \<noteq> CHR ''{'' \<Longrightarrow> c \<noteq> CHR ''['' \<Longrightarrow> match_braced (c # cs) = None"
  by (simp add: match_braced_def)

lemma findall_json_none:
  assumes "\<forall>c \<in> set s. c \<noteq> CHR ''{'' \<and> c \<noteq> CHR ''['' \<and> c \<noteq> CHR 0x60"
  shows "findall_json k s = []"
  using assms
  by (induction k s rule: findall_json.induct)
     (simp_all add: match_fenced_none match_braced_none)

lemma direct_json_none:
  assumes "CHR ''{'' \<notin> set s" and "CHR ''['' \<notin> set s"
  shows "direct_json s = None"
  using assms by (simp add: direct_json_def py_find_def Let_def)

text \<open>Whatever the response and whatever \<open>json.loads\<close> does, the result is empty.\<close>

lemma extract_json_always_empty:
  "extract_json_from_response loads response = JObj []"
proof -
  let ?s = "clean_text_data response False None"
  have k: "\<forall>c \<in> set ?s. c \<noteq> CHR ''{'' \<and> c \<noteq> CHR ''['' \<and> c \<noteq> CHR 0x60"
    using clean_text_data_kept kept_char_not_json by blast
  then have "findall_json 0 ?s = []" by (rule findall_json_none)
  moreover from k have "direct_json ?s = None" by (intro direct_json_none) auto
  ultimately show ?thesis by (simp add: extract_json_from_response_def)
qed

text \<open>
  Claim C5 (fails on the code). On the bare string \<open>{"a":1}\<close>, on the same JSON in a
  fenced block tagged \<open>json\<close>, and on the same JSON inside prose,
  \<open>extract_json_from_response\<close> returns the empty dictionary, not the object: the
  cleaned text of the bare string is \<open>"a"1\<close>. On prose without JSON it returns the
  empty dictionary, as the claim says.
\<close>

theorem extract_json_loses_json:
  \<open>extract_json_from_response loads ''{"a":1}'' = JObj []
   \<and> extract_json_from_response loads
         (fence @ ''json'' @ [CHR 0x0A] @ ''{"a":1}'' @ [CHR 0x0A] @ fence) = JObj []
   \<and> extract_json_from_response loads ''Here is the result: {"a":1} as requested.'' = JObj []
   \<and> extract_json_from_response loads ''There is no structured data here.'' = JObj []
   \<and> clean_text_data ''{"a":1}'' False None = [CHR 0x22, CHR ''a'', CHR 0x22, CHR ''1'']\<close>
proof -
  have \<open>clean_text_data ''{"a":1}'' False None = [CHR 0x22, CHR ''a'', CHR 0x22, CHR ''1'']\<close>
    by (simp add: clean_text_data_def kept_char_def py_isword_def py_isspace_def strip_def)
  then show ?thesis by (simp add: extract_json_always_empty)
qed

section \<open>Classification of errors\<close>

lemma str_status_400: "str_status (Some 400) = ''400''"
  by code_simp

lemma handle_error_timeout:
  "is_timeout error \<Longrightarrow>
   handle_error py_str a error operation model_name
     = ModelTimeoutError (err_str error) operation model_name (timeout a)"
  by (simp add: handle_error_def)


lemma handle_error_rate_limit:
  "handle_error py_str a (requests_HTTPError msg 429 hs body) operation model_name
     = ModelRateLimitError (''Rate limit exceeded: '' @ msg) operation model_name
         (case map_of hs ''retry-after'' of
            None \<Rightarrow> JNull
          | Some v \<Rightarrow> if v = [] then JStr []
                      else (case py_int v of Some n \<Rightarrow> JNum (of_int n) | None \<Rightarrow> JNull))"
  by (simp add: handle_error_def requests_HTTPError_def retry_after_of_def split: option.splits)

lemma py_int_30: "py_int ''30'' = Some 30"
  by (simp add: py_int_def strip_def py_isspace_def parse_unsigned_def is_digit_def digit_val_def)

lemma handle_error_rate_limit_30:
  "handle_error py_str a (requests_HTTPError msg 429 [(''retry-after'', ''30'')] body)
     operation model_name
     = ModelRateLimitError (''Rate limit exceeded: '' @ msg) operation model_name (JNum 30)"
  by (simp add: handle_error_rate_limit py_int_30)

lemma option_case_same: "(case x of None \<Rightarrow> a | Some y \<Rightarrow> a) = a"
  by (cases x) simp_all

lemma handle_error_400:
  "handle_error py_str a (requests_HTTPError msg 400 hs body) operation model_name
     = ModelAdapterError (''HTTP error 400: '' @ msg) operation model_name"
  by (simp add: handle_error_def requests_HTTPError_def str_status_400 option_case_same)

lemma content_filter_try_raises:
  "content_filter_try py_str (Some content_filter_body) operation model_name
     = Some (ModelContentFilterError ''Content filtered: Content violates usage policies''
               operation model_name (JStr ''Content violates usage policies''))"
  by (simp add: content_filter_try_def content_filter_body_def msg_get_def py_format_def)

text \<open>
  Claim C4 (fails on the code). For every HTTP 400 error raised by the requests library,
  whatever its body, \<open>handle_error\<close> raises the generic \<open>ModelAdapterError\<close> with
  the message \<open>HTTP error 400: ...\<close>. On the body
  \<open>{"error": {"type": "content_filter", "message": ...}}\<close> the \<open>try\<close> body does
  raise \<open>ModelContentFilterError\<close> with the provider's message, but the
  \<open>except Exception: pass\<close> around it catches that exception.
\<close>

theorem handle_error_400_is_generic:
  "handle_error py_str a (requests_HTTPError msg 400 hs body) operation model_name
     = ModelAdapterError (''HTTP error 400: '' @ msg) operation model_name
   \<and> content_filter_try py_str (Some content_filter_body) operation model_name
     = Some (ModelContentFilterError ''Content filtered: Content violates usage policies''
               operation model_name (JStr ''Content violates usage policies''))"
  using handle_error_400 content_filter_try_raises by blast

text \<open>
  Claim C7 (fails on the code). The timeout, 401/403 and \<open>retry-after: 30\<close> rows hold
  for the exceptions of the requests library (lemmas above). Two inputs are classified
  otherwise than the claim says: a 429 whose \<open>retry-after\<close> header is present and
  empty leaves \<open>retry_after\<close> set to the empty string, not unset; and the 401 that
  aiohttp raises on the asynchronous path, which has no \<open>status_code\<close> and no
  \<open>response\<close>, becomes the generic error \<open>HTTP error None\<close>.
\<close>

theorem handle_error_misclassifies:
  "handle_error py_str example_adapter
     (requests_HTTPError ''Too Many Requests'' 429 [(''retry-after'', '''')] None)
     ''generate_text'' ''gpt-3.5-turbo''
     = ModelRateLimitError ''Rate limit exceeded: Too Many Requests''
         ''generate_text'' ''gpt-3.5-turbo'' (JStr '''')
   \<and> handle_error py_str example_adapter (aiohttp_ClientResponseError ''Unauthorized'' 401)
       ''async_generate_text'' ''gpt-3.5-turbo''
     = ModelAdapterError ''HTTP error None: Unauthorized''
         ''async_generate_text'' ''gpt-3.5-turbo''"
proof
  show "handle_error py_str example_adapter
     (requests_HTTPError ''Too Many Requests'' 429 [(''retry-after'', '''')] None)
     ''generate_text'' ''gpt-3.5-turbo''
     = ModelRateLimitError ''Rate limit exceeded: Too Many Requests''
         ''generate_text'' ''gpt-3.5-turbo'' (JStr '''')"
    by (simp add: handle_error_rate_limit)
  show "handle_error py_str example_adapter (aiohttp_ClientResponseError ''Unauthorized'' 401)
       ''async_generate_text'' ''gpt-3.5-turbo''
     = ModelAdapterError ''HTTP error None: Unauthorized''
         ''async_generate_text'' ''gpt-3.5-turbo''"
    by (simp add: handle_error_def aiohttp_ClientResponseError_def str_status_def)
qed

section \<open>The request loop retries every failure\<close>

text \<open>
  When every attempt up to number \<open>N = max_retries\<close> fails and the delay is not
  negative, the loop posts, sleeps \<open>retry_delay * k\<close> before retry \<open>k\<close>, and after
  the last post raises what \<open>handle_error\<close> makes of the last exception. The kind
  of the exception plays no part before that.
\<close>

lemma request_loop_all_fail:
  assumes "max_retries a = int N" and "0 \<le> retry_delay a"
    and "\<forall>k. j \<le> k \<and> k \<le> N \<longrightarrow> attempt k = Inl (e k)" and "j \<le> N"
  shows "request_with_retries py_str a attempt operation model j
           = (Inl (handle_error py_str a (e N) operation model),
              concat (map (\<lambda>k. [Post, Sleep (retry_delay a * real k)]) [Suc j..<Suc N]) @ [Post])"
  using assms(3,4)
proof (induction "N - j" arbitrary: j)
  case 0
  then have "j = N" by simp
  with 0 assms(1) show ?case
    by (subst request_with_retries.simps) simp
next
  case (Suc d)
  then have lt: "j < N" by simp
  have fail: "attempt j = Inl (e j)" using Suc.prems by simp
  have nonneg: "\<not> retry_delay a * real (Suc j) < 0"
    using assms(2) by (simp add: not_less mult_nonneg_nonneg)
  have ih: "request_with_retries py_str a attempt operation model (Suc j)
           = (Inl (handle_error py_str a (e N) operation model),
              concat (map (\<lambda>k. [Post, Sleep (retry_delay a * real k)]) [Suc (Suc j)..<Suc N])
                @ [Post])"
    using Suc.hyps(2) Suc.prems lt by (intro Suc.hyps(1)) auto
  have upt: "[Suc j..<Suc N] = Suc j # [Suc (Suc j)..<Suc N]"
    using lt by (simp add: upt_conv_Cons)
  show ?case
    apply (subst request_with_retries.simps)
    using lt assms(1) nonneg
    apply (simp only: fail sum.case ih upt)
    apply simp
    done
qed

lemma attempts_retry_trace:
  "attempts (concat (map (\<lambda>k. [Post, Sleep (f k)]) ks) @ [Post]) = Suc (length ks)"
  by (induction ks) simp_all

lemma delays_retry_trace:
  "delays (concat (map (\<lambda>k. [Post, Sleep (f k)]) ks) @ [Post]) = map f ks"
  by (induction ks) simp_all

lemma sorted_linear_delays:
  assumes "0 < (d::real)"
  shows "sorted_wrt (<) (map (\<lambda>k. d * real k) [i..<j])"
proof -
  have "sorted_wrt (<) [i..<j]" by simp
  then show ?thesis
    using assms by (simp add: sorted_wrt_map sorted_wrt_mono_rel [where P = "(<)"])
qed

lemma default_parameters_in_range:
  "default_parameters st model ''temperature'' \<in> {None, Some (JNum 0.7)}
   \<and> default_parameters st model ''top_p'' \<in> {None, Some (JNum 1)}"
  by (simp add: default_parameters_def MODEL_CONFIGS_def)

lemma prepare_parameters_defaults:
  "prepare_parameters st None model_name
     = Inr (default_parameters st (model_or_default st model_name))"
proof -
  let ?p = "default_parameters st (model_or_default st model_name)"
  have t: "clamp_temperature ?p = Inr ?p"
    using default_parameters_in_range [of st "model_or_default st model_name"]
    by (auto simp: clamp_temperature_def)
  have "clamp_top_p ?p = Inr ?p"
    using default_parameters_in_range [of st "model_or_default st model_name"]
    by (auto simp: clamp_top_p_def)
  with t show ?thesis by (simp add: prepare_parameters_def clamp_parameters_def)
qed

text \<open>The shape of the events: posts at the even positions, sleeps in between.\<close>

lemma retry_steps_nth:
  "length (concat (map (\<lambda>k. [Post, Sleep (f k)]) [i..<i + n])) = 2 * n
   \<and> (\<forall>j < n. concat (map (\<lambda>k. [Post, Sleep (f k)]) [i..<i + n]) ! (2 * j) = Post
              \<and> concat (map (\<lambda>k. [Post, Sleep (f k)]) [i..<i + n]) ! (2 * j + 1)
                  = Sleep (f (i + j)))"
proof (induction n arbitrary: i)
  case 0
  show ?case by simp
next
  case (Suc n)
  have u: "[i..<i + Suc n] = i # [Suc i..<Suc i + n]"
    by (simp add: upt_conv_Cons)
  note ih = Suc.IH [of "Suc i"]
  show ?case
  proof (intro conjI allI impI)
    show "length (concat (map (\<lambda>k. [Post, Sleep (f k)]) [i..<i + Suc n])) = 2 * Suc n"
      using ih unfolding u by simp
  next
    fix j assume j: "j < Suc n"
    show "concat (map (\<lambda>k. [Post, Sleep (f k)]) [i..<i + Suc n]) ! (2 * j) = Post"
      using ih j unfolding u by (cases j) simp_all
    show "concat (map (\<lambda>k. [Post, Sleep (f k)]) [i..<i + Suc n]) ! (2 * j + 1)
            = Sleep (f (i + j))"
      using ih j unfolding u by (cases j) simp_all
  qed
qed

lemma retry_trace_nth:
  fixes f :: "nat \<Rightarrow> real"
  defines "evs \<equiv> \<lambda>N. concat (map (\<lambda>k. [Post, Sleep (f k)]) [1..<N + 1]) @ [Post]"
  shows "length (evs N) = 2 * N + 1"
    and "j \<le> N \<Longrightarrow> evs N ! (2 * j) = Post"
    and "1 \<le> k \<Longrightarrow> k \<le> N \<Longrightarrow> evs N ! (2 * k - 1) = Sleep (f k)"
proof -
  define c where "c = concat (map (\<lambda>k. [Post, Sleep (f k)]) [1..<1 + N])"
  note s = retry_steps_nth [of f 1 N, folded c_def]
  from s have l: "length c = 2 * N" by (rule conjunct1)
  from s have ev: "c ! (2 * i) = Post" if "i < N" for i using that by blast
  from s have od: "c ! (2 * i + 1) = Sleep (f (1 + i))" if "i < N" for i using that by blast
  have e: "evs N = c @ [Post]"
    by (simp only: evs_def c_def add.commute [of N 1])
  show "length (evs N) = 2 * N + 1" using l by (simp add: e)
  show "evs N ! (2 * j) = Post" if "j \<le> N"
  proof (cases "j < N")
    case True
    then have "2 * j < length c" using l by simp
    then show ?thesis using ev [OF True] by (simp add: e nth_append)
  next
    case False
    with that have "j = N" by simp
    then show ?thesis using l by (simp add: e nth_append)
  qed
  show "evs N ! (2 * k - 1) = Sleep (f k)" if k1: "1 \<le> k" and k2: "k \<le> N"
  proof -
    from k1 obtain i where i: "k = Suc i" by (cases k) auto
    with k2 have jn: "i < N" by simp
    then have "2 * i + 1 < length c" using l by simp
    then show ?thesis using od [OF jn] i by (simp add: e nth_append)
  qed
qed

text \<open>
  Claim C2. For every adapter configured with \<open>max_retries = N\<close> (a retry count) and
  a backoff delay \<open>retry_delay > 0\<close>, whose attempts \<open>0, ..., N\<close> all raise an error
  of a retryable kind, \<open>generate_text\<close> posts exactly \<open>N + 1\<close> times before it
  raises the classification of the last error. The events are, in this order, a post,
  then for \<open>k = 1, ..., N\<close> a sleep of \<open>retry_delay * k\<close> followed by the post of
  retry \<open>k\<close>: the posts are at the even positions of the trace, the sleep before
  retry \<open>k\<close> at position \<open>2 * k - 1\<close>. The sleeps are strictly increasing.
\<close>

theorem generate_text_retry_bound:
  assumes "max_retries a = int N" and "0 < retry_delay a"
    and "prepare_parameters st parameters model_name = Inr pp"
    and "\<forall>k \<le> N. net (model_name, prepare_prompt st prompt model_name, pp) k = Inl (e k)
                  \<and> retryable_kind (handle_error py_str a (e k) ''generate_text''
                                      (model_or_literal_default model_name))"
  shows "\<exists>evs. generate_text st py_str a net prompt model_name parameters
                 = (Inl (handle_error py_str a (e N) ''generate_text''
                           (model_or_literal_default model_name)), evs)
               \<and> evs = concat (map (\<lambda>k. [Post, Sleep (retry_delay a * real k)]) [1..<N + 1])
                         @ [Post]
               \<and> length evs = 2 * N + 1
               \<and> (\<forall>j \<le> N. evs ! (2 * j) = Post)
               \<and> (\<forall>k. 1 \<le> k \<and> k \<le> N \<longrightarrow> evs ! (2 * k - 1) = Sleep (retry_delay a * real k))
               \<and> attempts evs = N + 1
               \<and> delays evs = map (\<lambda>k. retry_delay a * real k) [1..<N + 1]
               \<and> sorted_wrt (<) (delays evs)"
proof -
  let ?attempt = "net (model_name, prepare_prompt st prompt model_name, pp)"
  let ?f = "\<lambda>k. retry_delay a * real k"
  let ?evs = "concat (map (\<lambda>k. [Post, Sleep (?f k)]) [1..<N + 1]) @ [Post]"
  have fails: "\<forall>k. 0 \<le> k \<and> k \<le> N \<longrightarrow> ?attempt k = Inl (e k)"
    using assms(4) by simp
  have "request_with_retries py_str a ?attempt ''generate_text''
          (model_or_literal_default model_name) 0
        = (Inl (handle_error py_str a (e N) ''generate_text''
                  (model_or_literal_default model_name)), ?evs)"
    using request_loop_all_fail [OF assms(1) _ fails, of py_str "''generate_text''"
            "model_or_literal_default model_name"] assms(2)
    by simp
  then have g: "generate_text st py_str a net prompt model_name parameters
        = (Inl (handle_error py_str a (e N) ''generate_text''
                  (model_or_literal_default model_name)), ?evs)"
    by (simp add: generate_text_def assms(3))
  have l: "length ?evs = 2 * N + 1"
    by (rule retry_trace_nth(1))
  have p: "\<forall>j \<le> N. ?evs ! (2 * j) = Post"
    using retry_trace_nth(2) [of _ N ?f] by blast
  have s: "\<forall>k. 1 \<le> k \<and> k \<le> N \<longrightarrow> ?evs ! (2 * k - 1) = Sleep (?f k)"
    using retry_trace_nth(3) [of _ N ?f] by blast
  have n: "attempts ?evs = N + 1"
    by (simp only: attempts_retry_trace) simp
  have d: "delays ?evs = map ?f [1..<N + 1]"
    by (simp only: delays_retry_trace)
  have o: "sorted_wrt (<) (delays ?evs)"
    unfolding d using assms(2) by (rule sorted_linear_delays)
  from g l p s n d o show ?thesis by (intro exI [of _ ?evs] conjI) simp_all
qed

theorem generate_text_retry_bound_witness:
  "generate_text example_settings example_py_str example_adapter
     (always_fails (requests_ConnectionError ''Connection failed''))
     ''Test prompt'' None None
     = (Inl (ModelAdapterError ''Connection error: Connection failed''
               ''generate_text'' ''default''),
        [Post, Sleep 1, Post, Sleep 2, Post, Sleep 3, Post])"
proof -
  let ?pp = "default_parameters example_settings (model_or_default example_settings None)"
  let ?err = "requests_ConnectionError ''Connection failed''"
  have a: "max_retries example_adapter = int 3" and b: "0 < retry_delay example_adapter"
    by (simp_all add: example_adapter_def)
  have c: "prepare_parameters example_settings None None = Inr ?pp"
    by (rule prepare_parameters_defaults)
  have h: "handle_error example_py_str example_adapter ?err ''generate_text''
             (model_or_literal_default None)
           = ModelAdapterError ''Connection error: Connection failed''
               ''generate_text'' ''default''"
    by (simp add: handle_error_def requests_ConnectionError_def model_or_literal_default_def)
  have d: "\<forall>k \<le> 3. always_fails ?err
             (None, prepare_prompt example_settings ''Test prompt'' None, ?pp) k = Inl ?err
           \<and> retryable_kind (handle_error example_py_str example_adapter ?err
                ''generate_text'' (model_or_literal_default None))"
    by (simp add: always_fails_def h)
  have u: "[1..<3 + 1] = [1, 2, 3::nat]" by (simp add: upt_rec)
  from generate_text_retry_bound
         [where a = example_adapter and N = 3 and st = example_settings
            and parameters = None and model_name = None and pp = ?pp
            and net = "always_fails ?err" and prompt = "''Test prompt''"
            and e = "\<lambda>k. ?err" and py_str = example_py_str, OF a b c d]
  obtain evs where
    g: "generate_text example_settings example_py_str example_adapter (always_fails ?err)
          ''Test prompt'' None None
        = (Inl (handle_error example_py_str example_adapter ?err ''generate_text''
                  (model_or_literal_default None)), evs)"
    and t: "evs = concat (map (\<lambda>k. [Post, Sleep (retry_delay example_adapter * real k)])
                      [1..<3 + 1]) @ [Post]"
    by blast
  have "evs = [Post, Sleep 1, Post, Sleep 2, Post, Sleep 3, Post]"
    unfolding t u by (simp add: example_adapter_def)
  with g h show ?thesis by simp
qed





section \<open>Clamping of generation parameters\<close>

lemma clamp_temperature_cases:
  "clamp_temperature p = Inr q \<Longrightarrow>
     valid_temperature q \<and> (\<forall>k. k \<noteq> ''temperature'' \<longrightarrow> q k = p k) \<and> dom q = dom p"
  by (auto simp: clamp_temperature_def valid_temperature_def
           split: option.splits if_splits)

lemma clamp_top_p_cases:
  "clamp_top_p p = Inr q \<Longrightarrow>
     valid_top_p q \<and> (\<forall>k. k \<noteq> ''top_p'' \<longrightarrow> q k = p k) \<and> dom q = dom p"
  by (auto simp: clamp_top_p_def valid_top_p_def
           split: option.splits if_splits)

lemma clamp_temperature_valid: "valid_temperature p \<Longrightarrow> clamp_temperature p = Inr p"
  by (auto simp: clamp_temperature_def valid_temperature_def split: option.splits)

lemma clamp_top_p_valid: "valid_top_p p \<Longrightarrow> clamp_top_p p = Inr p"
  by (auto simp: clamp_top_p_def valid_top_p_def split: option.splits)

lemma clamp_temperature_total:
  "numeric_param p ''temperature'' \<Longrightarrow> \<exists>q. clamp_temperature p = Inr q"
  by (auto simp: clamp_temperature_def numeric_param_def split: option.splits)

lemma clamp_top_p_total:
  "numeric_param p ''top_p'' \<Longrightarrow> \<exists>q. clamp_top_p p = Inr q"
  by (auto simp: clamp_top_p_def numeric_param_def split: option.splits)

lemma clamp_parameters_cases:
  assumes "clamp_parameters p = Inr q"
  shows "valid_temperature q \<and> valid_top_p q
         \<and> (\<forall>k. k \<noteq> ''temperature'' \<and> k \<noteq> ''top_p'' \<longrightarrow> q k = p k) \<and> dom q = dom p"
proof -
  from assms obtain p1 where 1: "clamp_temperature p = Inr p1" and 2: "clamp_top_p p1 = Inr q"
    by (auto simp: clamp_parameters_def split: sum.splits)
  note a = clamp_temperature_cases [OF 1]
  note b = clamp_top_p_cases [OF 2]
  from b have "q ''temperature'' = p1 ''temperature''" by simp
  with a have "valid_temperature q" by (simp add: valid_temperature_def)
  moreover from b have "valid_top_p q" by simp
  moreover have "\<forall>k. k \<noteq> ''temperature'' \<and> k \<noteq> ''top_p'' \<longrightarrow> q k = p k"
    using a b by simp
  moreover have "dom q = dom p" using a b by simp
  ultimately show ?thesis by simp
qed

lemma clamp_parameters_valid:
  "valid_temperature p \<Longrightarrow> valid_top_p p \<Longrightarrow> clamp_parameters p = Inr p"
  by (simp add: clamp_parameters_def clamp_temperature_valid clamp_top_p_valid)

lemma clamp_parameters_total:
  assumes "numeric_param p ''temperature''" and "numeric_param p ''top_p''"
  shows "\<exists>q. clamp_parameters p = Inr q"
proof -
  from assms(1) obtain p1 where 1: "clamp_temperature p = Inr p1"
    using clamp_temperature_total by blast
  from clamp_temperature_cases [OF 1] have "p1 ''top_p'' = p ''top_p''" by simp
  with assms(2) have "numeric_param p1 ''top_p''" by (simp add: numeric_param_def)
  then obtain q where "clamp_top_p p1 = Inr q" using clamp_top_p_total by blast
  with 1 show ?thesis by (simp add: clamp_parameters_def)
qed

lemma clamp_parameters_idempotent:
  assumes "clamp_parameters p = Inr q"
  shows "clamp_parameters q = Inr q"
proof -
  from clamp_parameters_cases [OF assms] have "valid_temperature q" and "valid_top_p q"
    by simp_all
  then show ?thesis by (rule clamp_parameters_valid)
qed

lemma prepare_parameters_idempotent:
  assumes "prepare_parameters st parameters model_name = Inr q"
  shows "prepare_parameters st (Some q) model_name = Inr q"
proof -
  let ?d = "default_parameters st (model_or_default st model_name)"
  let ?m = "case parameters of None \<Rightarrow> ?d | Some p \<Rightarrow> ?d ++ p"
  from assms have c: "clamp_parameters ?m = Inr q" by (simp add: prepare_parameters_def Let_def)
  from clamp_parameters_cases [OF c] have "dom q = dom ?m" by simp
  moreover have "dom ?d \<subseteq> dom ?m" by (cases parameters) auto
  ultimately have sub: "dom ?d \<subseteq> dom q" by simp
  have "?d ++ q = q"
  proof
    fix k show "(?d ++ q) k = q k"
      using sub by (cases "q k") (auto simp: map_add_def)
  qed
  moreover have "clamp_parameters q = Inr q" using c by (rule clamp_parameters_idempotent)
  ultimately show ?thesis by (simp add: prepare_parameters_def Let_def)
qed

lemma prepare_parameters_valid:
  assumes "prepare_parameters st parameters model_name = Inr q"
  shows "valid_temperature q \<and> valid_top_p q"
proof -
  let ?d = "default_parameters st (model_or_default st model_name)"
  let ?m = "case parameters of None \<Rightarrow> ?d | Some p \<Rightarrow> ?d ++ p"
  from assms have "clamp_parameters ?m = Inr q" by (simp add: prepare_parameters_def Let_def)
  from clamp_parameters_cases [OF this] show ?thesis by simp
qed

text \<open>The value each step stores: the nearer end of the interval, or the value itself.\<close>

lemma clamp_temperature_value:
  assumes "clamp_temperature p = Inr q"
  shows "(p ''temperature'' = None \<longrightarrow> q ''temperature'' = None)
         \<and> (\<forall>v r. p ''temperature'' = Some v \<and> py_num v = Some r \<longrightarrow>
                q ''temperature'' = Some (if r < 0 then JNum 0 else if 2 < r then JNum 2 else v))"
  using assms
  by (auto simp: clamp_temperature_def split: option.splits if_splits)

lemma clamp_top_p_value:
  assumes "clamp_top_p p = Inr q"
  shows "(p ''top_p'' = None \<longrightarrow> q ''top_p'' = None)
         \<and> (\<forall>v r. p ''top_p'' = Some v \<and> py_num v = Some r \<longrightarrow>
                q ''top_p'' = Some (if r \<le> 0 then JNum 0.01 else if 1 < r then JNum 1 else v))"
  using assms
  by (auto simp: clamp_top_p_def split: option.splits if_splits)

lemma clamp_parameters_value:
  assumes "clamp_parameters p = Inr q"
  shows "(p ''temperature'' = None \<longrightarrow> q ''temperature'' = None)
         \<and> (\<forall>v r. p ''temperature'' = Some v \<and> py_num v = Some r \<longrightarrow>
                q ''temperature'' = Some (if r < 0 then JNum 0 else if 2 < r then JNum 2 else v))
         \<and> (p ''top_p'' = None \<longrightarrow> q ''top_p'' = None)
         \<and> (\<forall>v r. p ''top_p'' = Some v \<and> py_num v = Some r \<longrightarrow>
                q ''top_p'' = Some (if r \<le> 0 then JNum 0.01 else if 1 < r then JNum 1 else v))"
proof -
  from assms obtain p1 where 1: "clamp_temperature p = Inr p1" and 2: "clamp_top_p p1 = Inr q"
    by (auto simp: clamp_parameters_def split: sum.splits)
  note a = clamp_temperature_cases [OF 1]
  note b = clamp_top_p_cases [OF 2]
  from b have t: "q ''temperature'' = p1 ''temperature''" by simp
  from a have u: "p1 ''top_p'' = p ''top_p''" by simp
  from clamp_temperature_value [OF 1] clamp_top_p_value [OF 2] show ?thesis
    unfolding t u by (elim conjE) (intro conjI, assumption+)
qed

lemma clamp_parameters_rejects:
  assumes "\<not> numeric_param p ''temperature'' \<or> \<not> numeric_param p ''top_p''"
  shows "\<exists>e. clamp_parameters p = Inl e"
proof (cases "numeric_param p ''temperature''")
  case False
  then have "\<exists>e. clamp_temperature p = Inl e"
    by (auto simp: clamp_temperature_def numeric_param_def split: option.splits)
  then show ?thesis by (auto simp: clamp_parameters_def)
next
  case True
  with assms have n: "\<not> numeric_param p ''top_p''" by simp
  from True obtain p1 where 1: "clamp_temperature p = Inr p1"
    using clamp_temperature_total by blast
  from clamp_temperature_cases [OF 1] have "p1 ''top_p'' = p ''top_p''" by simp
  with n have "\<not> numeric_param p1 ''top_p''" by (simp add: numeric_param_def)
  then have "\<exists>e. clamp_top_p p1 = Inl e"
    by (auto simp: clamp_top_p_def numeric_param_def split: option.splits)
  with 1 show ?thesis by (auto simp: clamp_parameters_def)
qed

text \<open>The defaults of the configured models; an unknown model has none.\<close>

lemma default_parameters_values:
  "default_parameters st model ''temperature''
     = (if model \<in> {''openai/gpt-4'', ''openai/gpt-3.5-turbo'', ''anthropic/claude-2'',
                      ''anthropic/claude-instant-1''} then Some (JNum 0.7) else None)
   \<and> default_parameters st model ''top_p''
     = (if model \<in> {''openai/gpt-4'', ''openai/gpt-3.5-turbo'', ''anthropic/claude-2'',
                      ''anthropic/claude-instant-1''} then Some (JNum 1) else None)
   \<and> default_parameters st model ''context_window'' = None
   \<and> default_parameters st model ''capabilities'' = None"
  by (simp add: default_parameters_def MODEL_CONFIGS_def)

lemma prepare_parameters_merge:
  "prepare_parameters st parameters model_name
     = clamp_parameters
         (case parameters of
            None \<Rightarrow> default_parameters st (model_or_default st model_name)
          | Some p \<Rightarrow> default_parameters st (model_or_default st model_name) ++ p)"
  by (simp add: prepare_parameters_def Let_def)

text \<open>
  Claim C8. The validation step of \<open>prepare_parameters\<close> clamps instead of
  rejecting: on a dictionary whose temperature and \<open>top_p\<close>, when present, are
  numbers, it returns a dictionary (and it raises only when one of them is not a
  number). In what it returns, a temperature below 0 has become 0 and one above 2 has
  become 2; a \<open>top_p\<close> of 0 or less has become 0.01 and one above 1 has become 1; a
  value in range, an absent key and every other key are as in the input. So the output
  has its temperature in \<open>[0, 2]\<close> and its \<open>top_p\<close> in \<open>(0, 1]\<close>, a dictionary
  already in range is returned as it is, and a second application changes nothing.
  \<open>prepare_parameters\<close> applies that step to the model's defaults (temperature 0.7
  and \<open>top_p\<close> 1 for the configured models, without the keys \<open>context_window\<close> and
  \<open>capabilities\<close>) overridden by the caller's parameters; its output is in range and
  preparing the output again returns it unchanged.
\<close>

theorem prepare_parameters_clamps:
  "(numeric_param p ''temperature'' \<and> numeric_param p ''top_p''
      \<longrightarrow> (\<exists>q. clamp_parameters p = Inr q))
   \<and> (\<forall>q. clamp_parameters p = Inr q \<longrightarrow>
          valid_temperature q \<and> valid_top_p q
          \<and> (\<forall>k. k \<noteq> ''temperature'' \<and> k \<noteq> ''top_p'' \<longrightarrow> q k = p k)
          \<and> clamp_parameters q = Inr q)
   \<and> (valid_temperature p \<and> valid_top_p p \<longrightarrow> clamp_parameters p = Inr p)
   \<and> (\<forall>q. prepare_parameters st parameters model_name = Inr q \<longrightarrow>
          valid_temperature q \<and> valid_top_p q
          \<and> prepare_parameters st (Some q) model_name = Inr q)
   \<and> (\<forall>q. clamp_parameters p = Inr q \<longrightarrow>
          (p ''temperature'' = None \<longrightarrow> q ''temperature'' = None)
          \<and> (\<forall>v r. p ''temperature'' = Some v \<and> py_num v = Some r \<longrightarrow>
                 q ''temperature''
                   = Some (if r < 0 then JNum 0 else if 2 < r then JNum 2 else v))
          \<and> (p ''top_p'' = None \<longrightarrow> q ''top_p'' = None)
          \<and> (\<forall>v r. p ''top_p'' = Some v \<and> py_num v = Some r \<longrightarrow>
                 q ''top_p''
                   = Some (if r \<le> 0 then JNum 0.01 else if 1 < r then JNum 1 else v)))
   \<and> (\<not> numeric_param p ''temperature'' \<or> \<not> numeric_param p ''top_p''
        \<longrightarrow> (\<exists>e. clamp_parameters p = Inl e))
   \<and> prepare_parameters st parameters model_name
       = clamp_parameters
           (case parameters of
              None \<Rightarrow> default_parameters st (model_or_default st model_name)
            | Some p' \<Rightarrow> default_parameters st (model_or_default st model_name) ++ p')
   \<and> default_parameters st model ''temperature''
       = (if model \<in> {''openai/gpt-4'', ''openai/gpt-3.5-turbo'', ''anthropic/claude-2'',
                        ''anthropic/claude-instant-1''} then Some (JNum 0.7) else None)
   \<and> default_parameters st model ''top_p''
       = (if model \<in> {''openai/gpt-4'', ''openai/gpt-3.5-turbo'', ''anthropic/claude-2'',
                        ''anthropic/claude-instant-1''} then Some (JNum 1) else None)
   \<and> default_parameters st model ''context_window'' = None
   \<and> default_parameters st model ''capabilities'' = None"
proof -
  have 1: "numeric_param p ''temperature'' \<and> numeric_param p ''top_p''
             \<longrightarrow> (\<exists>q. clamp_parameters p = Inr q)"
    using clamp_parameters_total by blast
  have 2: "\<forall>q. clamp_parameters p = Inr q \<longrightarrow>
             valid_temperature q \<and> valid_top_p q
             \<and> (\<forall>k. k \<noteq> ''temperature'' \<and> k \<noteq> ''top_p'' \<longrightarrow> q k = p k)
             \<and> clamp_parameters q = Inr q"
  proof (intro allI impI)
    fix q assume c: "clamp_parameters p = Inr q"
    from clamp_parameters_cases [OF c] clamp_parameters_idempotent [OF c]
    show "valid_temperature q \<and> valid_top_p q
          \<and> (\<forall>k. k \<noteq> ''temperature'' \<and> k \<noteq> ''top_p'' \<longrightarrow> q k = p k)
          \<and> clamp_parameters q = Inr q"
      by simp
  qed
  have 3: "valid_temperature p \<and> valid_top_p p \<longrightarrow> clamp_parameters p = Inr p"
    using clamp_parameters_valid by blast
  have 4: "\<forall>q. prepare_parameters st parameters model_name = Inr q \<longrightarrow>
             valid_temperature q \<and> valid_top_p q
             \<and> prepare_parameters st (Some q) model_name = Inr q"
  proof (intro allI impI)
    fix q assume c: "prepare_parameters st parameters model_name = Inr q"
    from prepare_parameters_valid [OF c] prepare_parameters_idempotent [OF c]
    show "valid_temperature q \<and> valid_top_p q
          \<and> prepare_parameters st (Some q) model_name = Inr q"
      by simp
  qed
  have 5: "\<forall>q. clamp_parameters p = Inr q \<longrightarrow>
          (p ''temperature'' = None \<longrightarrow> q ''temperature'' = None)
          \<and> (\<forall>v r. p ''temperature'' = Some v \<and> py_num v = Some r \<longrightarrow>
                 q ''temperature''
                   = Some (if r < 0 then JNum 0 else if 2 < r then JNum 2 else v))
          \<and> (p ''top_p'' = None \<longrightarrow> q ''top_p'' = None)
          \<and> (\<forall>v r. p ''top_p'' = Some v \<and> py_num v = Some r \<longrightarrow>
                 q ''top_p''
                   = Some (if r \<le> 0 then JNum 0.01 else if 1 < r then JNum 1 else v))"
    by (intro allI impI) (rule clamp_parameters_value)
  have 6: "\<not> numeric_param p ''temperature'' \<or> \<not> numeric_param p ''top_p''
             \<longrightarrow> (\<exists>e. clamp_parameters p = Inl e)"
    by (intro impI) (rule clamp_parameters_rejects)
  note 7 = prepare_parameters_merge [of st parameters model_name]
  note 8 = default_parameters_values [of st model]
  from 8 have 9: "default_parameters st model ''temperature''
       = (if model \<in> {''openai/gpt-4'', ''openai/gpt-3.5-turbo'', ''anthropic/claude-2'',
                        ''anthropic/claude-instant-1''} then Some (JNum 0.7) else None)"
    and 10: "default_parameters st model ''top_p''
       = (if model \<in> {''openai/gpt-4'', ''openai/gpt-3.5-turbo'', ''anthropic/claude-2'',
                        ''anthropic/claude-instant-1''} then Some (JNum 1) else None)"
    and 11: "default_parameters st model ''context_window'' = None"
    and 12: "default_parameters st model ''capabilities'' = None"
    by blast+
  show ?thesis
    apply (intro conjI)
               apply (rule 1)
              apply (rule 2)
             apply (rule 3)
            apply (rule 4)
           apply (rule 5)
          apply (rule 6)
         apply (rule 7)
        apply (rule 9)
       apply (rule 10)
      apply (rule 11)
     apply (rule 12)
    done
qed

theorem prepare_parameters_clamps_witness:
  "(\<exists>q. clamp_parameters example_parameters = Inr q
        \<and> q ''temperature'' = Some (JNum 2) \<and> q ''top_p'' = Some (JNum 0.01)
        \<and> clamp_parameters q = Inr q)
   \<and> (\<exists>q. clamp_parameters example_parameters_other = Inr q
          \<and> q ''temperature'' = Some (JNum 0) \<and> q ''top_p'' = Some (JNum 1)
          \<and> clamp_parameters q = Inr q)
   \<and> (\<exists>q. prepare_parameters example_settings (Some example_parameters_other) None = Inr q
          \<and> q ''temperature'' = Some (JNum 0) \<and> q ''top_p'' = Some (JNum 1)
          \<and> prepare_parameters example_settings (Some q) None = Inr q)
   \<and> (\<exists>q. prepare_parameters example_settings None (Some ''openai/gpt-4'') = Inr q
          \<and> q ''temperature'' = Some (JNum 0.7) \<and> q ''top_p'' = Some (JNum 1)
          \<and> q ''context_window'' = None)"
proof (intro conjI)
  note T = prepare_parameters_clamps
             [where p = example_parameters and st = example_settings
                and parameters = None and model_name = None and model = "''openai/gpt-4''"]
  note total = T [THEN conjunct1, rule_format]
  note again = T [THEN conjunct2, THEN conjunct1, rule_format]
  note val = T [THEN conjunct2, THEN conjunct2, THEN conjunct2, THEN conjunct2,
                THEN conjunct1, rule_format]
  have n: "numeric_param example_parameters ''temperature''
           \<and> numeric_param example_parameters ''top_p''"
    by (simp add: numeric_param_def example_parameters_def)
  from total [OF n] obtain q where q: "clamp_parameters example_parameters = Inr q" ..
  have t: "example_parameters ''temperature'' = Some (JNum 3.5) \<and> py_num (JNum 3.5) = Some 3.5"
    and u: "example_parameters ''top_p'' = Some (JNum (- 1)) \<and> py_num (JNum (- 1)) = Some (- 1)"
    by (simp_all add: example_parameters_def)
  from val [OF q, THEN conjunct2, THEN conjunct1, rule_format, OF t]
  have 1: "q ''temperature'' = Some (JNum 2)" by simp
  from val [OF q, THEN conjunct2, THEN conjunct2, THEN conjunct2, rule_format, OF u]
  have 2: "q ''top_p'' = Some (JNum 0.01)" by simp
  from again [OF q] have 3: "clamp_parameters q = Inr q" by simp
  from q 1 2 3
  show "\<exists>q. clamp_parameters example_parameters = Inr q
        \<and> q ''temperature'' = Some (JNum 2) \<and> q ''top_p'' = Some (JNum 0.01)
        \<and> clamp_parameters q = Inr q"
    by (intro exI [of _ q] conjI)
next
  note T = prepare_parameters_clamps
             [where p = example_parameters_other and st = example_settings
                and parameters = None and model_name = None and model = "''openai/gpt-4''"]
  note total = T [THEN conjunct1, rule_format]
  note again = T [THEN conjunct2, THEN conjunct1, rule_format]
  note val = T [THEN conjunct2, THEN conjunct2, THEN conjunct2, THEN conjunct2,
                THEN conjunct1, rule_format]
  have n: "numeric_param example_parameters_other ''temperature''
           \<and> numeric_param example_parameters_other ''top_p''"
    by (simp add: numeric_param_def example_parameters_other_def)
  from total [OF n] obtain q where q: "clamp_parameters example_parameters_other = Inr q" ..
  have t: "example_parameters_other ''temperature'' = Some (JNum (- 1))
           \<and> py_num (JNum (- 1)) = Some (- 1)"
    and u: "example_parameters_other ''top_p'' = Some (JNum 1.5)
            \<and> py_num (JNum 1.5) = Some 1.5"
    by (simp_all add: example_parameters_other_def)
  from val [OF q, THEN conjunct2, THEN conjunct1, rule_format, OF t]
  have 1: "q ''temperature'' = Some (JNum 0)" by simp
  from val [OF q, THEN conjunct2, THEN conjunct2, THEN conjunct2, rule_format, OF u]
  have 2: "q ''top_p'' = Some (JNum 1)" by simp
  from again [OF q] have 3: "clamp_parameters q = Inr q" by simp
  from q 1 2 3
  show "\<exists>q. clamp_parameters example_parameters_other = Inr q
          \<and> q ''temperature'' = Some (JNum 0) \<and> q ''top_p'' = Some (JNum 1)
          \<and> clamp_parameters q = Inr q"
    by (intro exI [of _ q] conjI)
next
  define d where "d = default_parameters example_settings (model_or_default example_settings None)"
  define m where "m = d ++ example_parameters_other"
  note T = prepare_parameters_clamps
             [where p = m and st = example_settings
                and parameters = "Some example_parameters_other" and model_name = None
                and model = "''openai/gpt-4''"]
  note total = T [THEN conjunct1, rule_format]
  note prep = T [THEN conjunct2, THEN conjunct2, THEN conjunct2, THEN conjunct1, rule_format]
  note val = T [THEN conjunct2, THEN conjunct2, THEN conjunct2, THEN conjunct2,
                THEN conjunct1, rule_format]
  note merge = T [THEN conjunct2, THEN conjunct2, THEN conjunct2, THEN conjunct2,
                  THEN conjunct2, THEN conjunct2, THEN conjunct1]
  have e: "prepare_parameters example_settings (Some example_parameters_other) None
             = clamp_parameters m"
    using merge by (simp add: m_def d_def)
  have t: "m ''temperature'' = Some (JNum (- 1)) \<and> py_num (JNum (- 1)) = Some (- 1)"
    and u: "m ''top_p'' = Some (JNum 1.5) \<and> py_num (JNum 1.5) = Some 1.5"
    by (simp_all add: m_def example_parameters_other_def)
  have n: "numeric_param m ''temperature'' \<and> numeric_param m ''top_p''"
    using t u by (simp add: numeric_param_def)
  from total [OF n] obtain q where q: "clamp_parameters m = Inr q" ..
  from val [OF q, THEN conjunct2, THEN conjunct1, rule_format, OF t]
  have 1: "q ''temperature'' = Some (JNum 0)" by simp
  from val [OF q, THEN conjunct2, THEN conjunct2, THEN conjunct2, rule_format, OF u]
  have 2: "q ''top_p'' = Some (JNum 1)" by simp
  from q e have r: "prepare_parameters example_settings (Some example_parameters_other) None
                    = Inr q"
    by simp
  from prep [OF r] have 3: "prepare_parameters example_settings (Some q) None = Inr q" by simp
  from r 1 2 3
  show "\<exists>q. prepare_parameters example_settings (Some example_parameters_other) None = Inr q
          \<and> q ''temperature'' = Some (JNum 0) \<and> q ''top_p'' = Some (JNum 1)
          \<and> prepare_parameters example_settings (Some q) None = Inr q"
    by (intro exI [of _ q] conjI)
next
  define d where "d = default_parameters example_settings ''openai/gpt-4''"
  note T = prepare_parameters_clamps
             [where p = d and st = example_settings
                and parameters = None and model_name = "Some ''openai/gpt-4''"
                and model = "''openai/gpt-4''"]
  note noop = T [THEN conjunct2, THEN conjunct2, THEN conjunct1, rule_format]
  note tail = T [THEN conjunct2, THEN conjunct2, THEN conjunct2, THEN conjunct2,
                 THEN conjunct2, THEN conjunct2]
  note merge = tail [THEN conjunct1]
  note dt = tail [THEN conjunct2, THEN conjunct1]
  note dp = tail [THEN conjunct2, THEN conjunct2, THEN conjunct1]
  note dc = tail [THEN conjunct2, THEN conjunct2, THEN conjunct2, THEN conjunct1]
  have mo: "model_or_default example_settings (Some ''openai/gpt-4'') = ''openai/gpt-4''"
    by (simp add: model_or_default_def)
  have e: "prepare_parameters example_settings None (Some ''openai/gpt-4'') = clamp_parameters d"
    using merge by (simp add: mo d_def)
  from dt have t: "d ''temperature'' = Some (JNum 0.7)" by (simp add: d_def)
  from dp have u: "d ''top_p'' = Some (JNum 1)" by (simp add: d_def)
  from dc have w: "d ''context_window'' = None" by (simp add: d_def)
  have v: "valid_temperature d \<and> valid_top_p d"
    by (simp add: valid_temperature_def valid_top_p_def t u)
  from noop [OF v] e have r: "prepare_parameters example_settings None (Some ''openai/gpt-4'')
                               = Inr d"
    by simp
  from r t u w
  show "\<exists>q. prepare_parameters example_settings None (Some ''openai/gpt-4'') = Inr q
          \<and> q ''temperature'' = Some (JNum 0.7) \<and> q ''top_p'' = Some (JNum 1)
          \<and> q ''context_window'' = None"
    by (intro exI [of _ d] conjI)
qed

section \<open>Truncation of long prompts\<close>

lemma nine_tenths_floor: "nat \<lfloor>real cw * 0.9\<rfloor> = 9 * cw div 10"
proof -
  have "\<lfloor>real cw * 0.9\<rfloor> = \<lfloor>real (9 * cw) / real 10\<rfloor>"
    by (rule arg_cong [where f = floor]) simp
  also have "\<dots> = int (9 * cw div 10)" by (rule floor_divide_of_nat_eq)
  finally show ?thesis by simp
qed

text \<open>The configured windows; 4096 for any other model.\<close>

lemma context_window_of_values:
  "context_window_of st model
     = (if model = ''openai/gpt-4'' then 8192
        else if model = ''openai/gpt-3.5-turbo'' then 4096
        else if model = ''anthropic/claude-2'' \<or> model = ''anthropic/claude-instant-1''
        then 100000
        else 4096)"
  by (simp add: context_window_of_def MODEL_CONFIGS_def)

text \<open>
  \<open>strip\<close> removes a whitespace prefix and a whitespace suffix, and what remains
  neither starts nor ends with whitespace.
\<close>

lemma strip_decomposition:
  "\<exists>l r. s = l @ strip s @ r
         \<and> (\<forall>c \<in> set l \<union> set r. py_isspace c)
         \<and> (strip s \<noteq> [] \<longrightarrow> \<not> py_isspace (hd (strip s)) \<and> \<not> py_isspace (last (strip s)))"
proof -
  define l where "l = takeWhile py_isspace s"
  define t where "t = dropWhile py_isspace s"
  define r where "r = rev (takeWhile py_isspace (rev t))"
  have c: "strip s = rev (dropWhile py_isspace (rev t))" by (simp add: strip_def t_def)
  have s: "s = l @ t" by (simp add: l_def t_def)
  have "rev (takeWhile py_isspace (rev t) @ dropWhile py_isspace (rev t))
          = rev (dropWhile py_isspace (rev t)) @ rev (takeWhile py_isspace (rev t))"
    by (rule rev_append)
  then have "rev (rev t)
          = rev (dropWhile py_isspace (rev t)) @ rev (takeWhile py_isspace (rev t))"
    by (simp only: takeWhile_dropWhile_id)
  then have t: "t = strip s @ r" by (simp only: rev_rev_ident c r_def)
  have wl: "\<forall>c \<in> set l. py_isspace c" by (auto simp: l_def dest: set_takeWhileD)
  have wr: "\<forall>c \<in> set r. py_isspace c" by (auto simp: r_def dest: set_takeWhileD)
  have ends: "\<not> py_isspace (hd (strip s)) \<and> \<not> py_isspace (last (strip s))" if n: "strip s \<noteq> []"
  proof
    from n t have "t \<noteq> []" and "hd t = hd (strip s)" by simp_all
    then show "\<not> py_isspace (hd (strip s))"
      using hd_dropWhile [of py_isspace s] by (simp add: t_def)
    from n have d: "dropWhile py_isspace (rev t) \<noteq> []" by (simp add: c)
    then have "\<not> py_isspace (hd (dropWhile py_isspace (rev t)))" by (rule hd_dropWhile)
    then show "\<not> py_isspace (last (strip s))" using d by (simp add: c last_rev)
  qed
  from s t have "s = l @ strip s @ r" by simp
  with wl wr ends show ?thesis by blast
qed

text \<open>
  Claim C10. Let the model be the given name, or the default model when the name is
  absent or empty; let the window be 8192 for \<open>openai/gpt-4\<close>, 4096 for
  \<open>openai/gpt-3.5-turbo\<close>, 100000 for the two \<open>anthropic/\<close> models and 4096 for any
  other model; and let the prompt be stripped of leading and trailing whitespace. When
  its length exceeds 0.9 times the window (that is, when ten times the length exceeds
  nine times the window), \<open>prepare_prompt\<close> returns its first \<open>floor(0.9 * window)\<close>
  characters (\<open>9 * window div 10\<close>) followed by a newline and the note
  \<open>[Note: prompt has been truncated to fit model context window]\<close>; otherwise it
  returns the stripped prompt unchanged.
\<close>

theorem prepare_prompt_truncates:
  "(let model = (case model_name of
                   None \<Rightarrow> DEFAULT_MODEL st
                 | Some m \<Rightarrow> if m = [] then DEFAULT_MODEL st else m);
        cw = (if model = ''openai/gpt-4'' then 8192
              else if model = ''openai/gpt-3.5-turbo'' then 4096
              else if model = ''anthropic/claude-2'' \<or> model = ''anthropic/claude-instant-1''
              then 100000
              else (4096::nat));
        cleaned = strip prompt
    in (real (length cleaned) > 0.9 * real cw \<longrightarrow>
          prepare_prompt st prompt model_name
            = take (nat \<lfloor>0.9 * real cw\<rfloor>) cleaned
              @ CHR 0x0A # ''[Note: prompt has been truncated to fit model context window]'')
       \<and> (real (length cleaned) \<le> 0.9 * real cw \<longrightarrow>
            prepare_prompt st prompt model_name = cleaned)
       \<and> nat \<lfloor>0.9 * real cw\<rfloor> = 9 * cw div 10
       \<and> (real (length cleaned) > 0.9 * real cw \<longleftrightarrow> 10 * length cleaned > 9 * cw)
       \<and> (\<exists>l r. prompt = l @ cleaned @ r
              \<and> (\<forall>c \<in> set l \<union> set r.
                    (of_char c :: nat) \<in> {9, 10, 11, 12, 13, 28, 29, 30, 31, 32, 133, 160})
              \<and> (cleaned \<noteq> [] \<longrightarrow>
                    (of_char (hd cleaned) :: nat)
                      \<notin> {9, 10, 11, 12, 13, 28, 29, 30, 31, 32, 133, 160}
                    \<and> (of_char (last cleaned) :: nat)
                      \<notin> {9, 10, 11, 12, 13, 28, 29, 30, 31, 32, 133, 160})))"
proof -
  define model where "model = (case model_name of
                   None \<Rightarrow> DEFAULT_MODEL st
                 | Some m \<Rightarrow> if m = [] then DEFAULT_MODEL st else m)"
  define cw where "cw = (if model = ''openai/gpt-4'' then 8192
              else if model = ''openai/gpt-3.5-turbo'' then 4096
              else if model = ''anthropic/claude-2'' \<or> model = ''anthropic/claude-instant-1''
              then 100000
              else (4096::nat))"
  define c where "c = strip prompt"
  have m: "model_or_default st model_name = model"
    by (simp only: model_or_default_def model_def)
  have w: "context_window_of st model = cw"
    by (simp only: context_window_of_values cw_def)
  have e: "0.9 * real cw = real cw * 0.9" by (rule mult.commute)
  have p: "prepare_prompt st prompt model_name
             = (if real (length c) > real cw * 0.9
                then take (nat \<lfloor>real cw * 0.9\<rfloor>) c @ truncation_note else c)"
    by (simp only: prepare_prompt_def Let_def m w c_def)
  have 1: "real (length c) > 0.9 * real cw \<longrightarrow>
             prepare_prompt st prompt model_name
               = take (nat \<lfloor>0.9 * real cw\<rfloor>) c
                 @ CHR 0x0A # ''[Note: prompt has been truncated to fit model context window]''"
    unfolding e p truncation_note_def by simp
  have 2: "real (length c) \<le> 0.9 * real cw \<longrightarrow> prepare_prompt st prompt model_name = c"
    unfolding e p by simp
  have 3: "nat \<lfloor>0.9 * real cw\<rfloor> = 9 * cw div 10"
    unfolding e by (rule nine_tenths_floor)
  have "real (length c) > 0.9 * real cw \<longleftrightarrow> real (10 * length c) > real (9 * cw)"
    by (simp add: mult.commute)
  then have 4: "real (length c) > 0.9 * real cw \<longleftrightarrow> 10 * length c > 9 * cw"
    by (simp only: of_nat_less_iff)
  from strip_decomposition [of prompt]
  have 5: "\<exists>l r. prompt = l @ c @ r
              \<and> (\<forall>x \<in> set l \<union> set r.
                    (of_char x :: nat) \<in> {9, 10, 11, 12, 13, 28, 29, 30, 31, 32, 133, 160})
              \<and> (c \<noteq> [] \<longrightarrow>
                    (of_char (hd c) :: nat)
                      \<notin> {9, 10, 11, 12, 13, 28, 29, 30, 31, 32, 133, 160}
                    \<and> (of_char (last c) :: nat)
                      \<notin> {9, 10, 11, 12, 13, 28, 29, 30, 31, 32, 133, 160})"
    unfolding py_isspace_def c_def .
  show ?thesis
    unfolding Let_def model_def [symmetric] cw_def [symmetric] c_def [symmetric]
    apply (intro conjI)
        apply (rule 1)
       apply (rule 2)
      apply (rule 3)
     apply (rule 4)
    apply (rule 5)
    done
qed

lemma strip_no_space:
  assumes "\<not> py_isspace x"
  shows "strip (replicate n x) = replicate n x"
proof -
  have "dropWhile py_isspace (replicate n x) = replicate n x"
    using assms by (cases n) simp_all
  then show ?thesis by (simp add: strip_def)
qed

theorem prepare_prompt_truncates_witness:
  "prepare_prompt example_settings (replicate 3687 (CHR ''a'')) (Some ''openai/gpt-3.5-turbo'')
     = replicate 3686 (CHR ''a'')
       @ CHR 0x0A # ''[Note: prompt has been truncated to fit model context window]''
   \<and> prepare_prompt example_settings (replicate 3686 (CHR ''a'')) (Some ''openai/gpt-3.5-turbo'')
     = replicate 3686 (CHR ''a'')
   \<and> prepare_prompt example_settings (replicate 8000 (CHR ''a'')) None
     = replicate 7372 (CHR ''a'')
       @ CHR 0x0A # ''[Note: prompt has been truncated to fit model context window]''
   \<and> prepare_prompt example_settings (replicate 4000 (CHR ''a'')) (Some ''my/model'')
     = replicate 3686 (CHR ''a'')
       @ CHR 0x0A # ''[Note: prompt has been truncated to fit model context window]''
   \<and> prepare_prompt example_settings ''  hello  '' None = ''hello''"
proof -
  have s: "strip (replicate n (CHR ''a'')) = replicate n (CHR ''a'')" for n
    by (rule strip_no_space) (simp add: py_isspace_def)
  have s': "strip ''  hello  '' = ''hello''"
    by (simp add: strip_def py_isspace_def)
  have d: "DEFAULT_MODEL example_settings = ''openai/gpt-4''"
    by (simp add: example_settings_def)
  from prepare_prompt_truncates
         [where model_name = "Some ''openai/gpt-3.5-turbo''" and st = example_settings
            and prompt = "replicate 3687 (CHR ''a'')"]
  have 1: "prepare_prompt example_settings (replicate 3687 (CHR ''a''))
             (Some ''openai/gpt-3.5-turbo'')
           = replicate 3686 (CHR ''a'')
             @ CHR 0x0A # ''[Note: prompt has been truncated to fit model context window]''"
    unfolding Let_def s by simp
  from prepare_prompt_truncates
         [where model_name = "Some ''openai/gpt-3.5-turbo''" and st = example_settings
            and prompt = "replicate 3686 (CHR ''a'')"]
  have 2: "prepare_prompt example_settings (replicate 3686 (CHR ''a''))
             (Some ''openai/gpt-3.5-turbo'')
           = replicate 3686 (CHR ''a'')"
    unfolding Let_def s by simp
  from prepare_prompt_truncates
         [where model_name = None and st = example_settings
            and prompt = "replicate 8000 (CHR ''a'')"]
  have 3: "prepare_prompt example_settings (replicate 8000 (CHR ''a'')) None
           = replicate 7372 (CHR ''a'')
             @ CHR 0x0A # ''[Note: prompt has been truncated to fit model context window]''"
    unfolding Let_def s d by simp
  from prepare_prompt_truncates
         [where model_name = "Some ''my/model''" and st = example_settings
            and prompt = "replicate 4000 (CHR ''a'')"]
  have 4: "prepare_prompt example_settings (replicate 4000 (CHR ''a'')) (Some ''my/model'')
           = replicate 3686 (CHR ''a'')
             @ CHR 0x0A # ''[Note: prompt has been truncated to fit model context window]''"
    unfolding Let_def s by simp
  from prepare_prompt_truncates
         [where model_name = None and st = example_settings and prompt = "''  hello  ''"]
  have 5: "prepare_prompt example_settings ''  hello  '' None = ''hello''"
    unfolding Let_def s' d by simp
  from 1 2 3 4 5 show ?thesis by (intro conjI)
qed

section \<open>Validation of chat messages\<close>

lemma prepare_messages_not_list:
  assumes "\<forall>msgs. messages \<noteq> JArr msgs"
  shows "prepare_messages st messages model_name = Inl (ValueError ''Messages must be a list'')"
  using assms by (cases messages) (simp_all add: prepare_messages_def)

lemma prepare_messages_bad_entry:
  assumes "\<not> list_all is_message msgs"
  shows "prepare_messages st (JArr msgs) model_name
           = Inl (ValueError ''Each message must be a dict with 'role' and 'content' keys'')"
  using assms by (simp add: prepare_messages_def)

lemma prepare_messages_empty:
  "prepare_messages st (JArr []) model_name
     = Inr (if startswith (model_or_default st model_name) ''anthropic/''
            then [helpful_system_message] else [])"
  by (simp add: prepare_messages_def optimize_messages_def Let_def)

text \<open>
  Claim C9 (as amended). For every chat-completion call, a \<open>messages\<close> argument that
  is not a list, or that is a list with an entry that is not a dictionary with both a
  \<open>role\<close> and a \<open>content\<close> key, fails validation with \<open>ValueError\<close> before any
  post is made. The empty list passes validation: \<open>prepare_messages\<close> returns it
  (with the system message in front for a model whose name starts with
  \<open>anthropic/\<close>).
\<close>

theorem generate_chat_completion_validates:
  "((\<forall>msgs. messages \<noteq> JArr msgs) \<longrightarrow>
      generate_chat_completion st py_str a net messages model_name parameters
        = (Inl (ValueError ''Messages must be a list''), []))
   \<and> (\<forall>msgs. messages = JArr msgs \<and> \<not> list_all is_message msgs \<longrightarrow>
          generate_chat_completion st py_str a net messages model_name parameters
            = (Inl (ValueError ''Each message must be a dict with 'role' and 'content' keys''),
               []))
   \<and> prepare_messages st (JArr []) model_name
       = Inr (if startswith (model_or_default st model_name) ''anthropic/''
              then [helpful_system_message] else [])"
proof (intro conjI allI impI)
  assume "\<forall>msgs. messages \<noteq> JArr msgs"
  then show "generate_chat_completion st py_str a net messages model_name parameters
        = (Inl (ValueError ''Messages must be a list''), [])"
    by (simp add: generate_chat_completion_def prepare_messages_not_list)
next
  fix msgs assume "messages = JArr msgs \<and> \<not> list_all is_message msgs"
  then show "generate_chat_completion st py_str a net messages model_name parameters
            = (Inl (ValueError ''Each message must be a dict with 'role' and 'content' keys''),
               [])"
    by (simp add: generate_chat_completion_def prepare_messages_bad_entry)
next
  show "prepare_messages st (JArr []) model_name
       = Inr (if startswith (model_or_default st model_name) ''anthropic/''
              then [helpful_system_message] else [])"
    by (rule prepare_messages_empty)
qed

theorem generate_chat_completion_validates_witness:
  "generate_chat_completion example_settings example_py_str example_adapter
     (always_returns example_response) (JStr ''hi'') None None
     = (Inl (ValueError ''Messages must be a list''), [])
   \<and> generate_chat_completion example_settings example_py_str example_adapter
       (always_returns example_response) (JArr [JObj [(''role'', JStr ''user'')]]) None None
     = (Inl (ValueError ''Each message must be a dict with 'role' and 'content' keys''), [])"
proof -
  have a: "\<forall>msgs. JStr ''hi'' \<noteq> JArr msgs" by simp
  have b: "JArr [JObj [(''role'', JStr ''user'')]] = JArr [JObj [(''role'', JStr ''user'')]]
           \<and> \<not> list_all is_message [JObj [(''role'', JStr ''user'')]]"
    by (simp add: is_message_def)
  from generate_chat_completion_validates
         [where messages = "JStr ''hi''" and st = example_settings and py_str = example_py_str
            and a = example_adapter and net = "always_returns example_response"
            and model_name = None and parameters = None] a
  have 1: "generate_chat_completion example_settings example_py_str example_adapter
     (always_returns example_response) (JStr ''hi'') None None
     = (Inl (ValueError ''Messages must be a list''), [])"
    by blast
  from generate_chat_completion_validates
         [where messages = "JArr [JObj [(''role'', JStr ''user'')]]" and st = example_settings
            and py_str = example_py_str
            and a = example_adapter and net = "always_returns example_response"
            and model_name = None and parameters = None] b
  have 2: "generate_chat_completion example_settings example_py_str example_adapter
       (always_returns example_response) (JArr [JObj [(''role'', JStr ''user'')]]) None None
     = (Inl (ValueError ''Each message must be a dict with 'role' and 'content' keys''), [])"
    by blast
  from 1 2 show ?thesis by (rule conjI)
qed

text \<open>
  Claim C9 as stated fails on the empty sequence: the call is not rejected, the empty
  list of messages is posted and the response returned.
\<close>

theorem generate_chat_completion_posts_empty_messages:
  "generate_chat_completion example_settings example_py_str example_adapter
     (always_returns example_response) (JArr []) None None
     = (Inr example_response, [Post])"
  by (simp add: generate_chat_completion_def prepare_messages_empty
        prepare_parameters_defaults request_with_retries.simps always_returns_def)

end
